theory Spec2Isabelle
  imports Main "HOL-Library.Sublist" "HOL-Library.Word"
begin

text \<open>
  The API clients of the F1 MCP server: the caching client that talks to the Jolpica API
  directly (cache lookup, TTL classification, fetch on a miss, error formatting) and the
  older proxy client of \<open>src/services/f1ApiClient.js\<close>, which has the same interceptors
  and no cache. Asynchronous calls are modelled as functions from the state of the client
  and the outcome of the HTTP request to a result and a new state; a raised error is the
  left summand of the result.
\<close>

section \<open>JavaScript values\<close>

text \<open>
  The client handles parsed JSON documents, \<open>undefined\<close>, and the values passed as
  parameters. A number is an integer of 54 bits in two's complement (from \<open>-2^53\<close> to
  \<open>2^53 - 1\<close>): each of them is a JavaScript number, and JavaScript prints it in plain
  decimal digits; fractions and larger numbers are outside the model. Strings are lists of
  characters, compared character by character as JavaScript compares code units. An object
  is the list of its own properties; reading a property returns the first binding of its
  name.
\<close>

datatype jsval =
    Undefined
  | Null
  | Bool bool
  | Num "54 word"
  | Str string
  | Arr "jsval list"
  | Obj "(string \<times> jsval) list"

text \<open>Truthiness, as tested by \<open>if (v)\<close> and by \<open>v || w\<close>.\<close>

fun truthy :: "jsval \<Rightarrow> bool" where
  "truthy Undefined = False"
| "truthy Null = False"
| "truthy (Bool b) = b"
| "truthy (Num n) = (n \<noteq> 0)"
| "truthy (Str s) = (s \<noteq> [])"
| "truthy (Arr xs) = True"
| "truthy (Obj kvs) = True"

definition nullish :: "jsval \<Rightarrow> bool" where
  "nullish v = (v = Undefined \<or> v = Null)"

text \<open>\<open>a || b\<close>\<close>

definition or_else :: "jsval \<Rightarrow> jsval \<Rightarrow> jsval" where
  "or_else a b = (if truthy a then a else b)"

text \<open>
  \<open>v.k\<close> for a value that is neither \<open>null\<close> nor \<open>undefined\<close>, and for the
  property names this client reads (\<open>MRData\<close>, \<open>error\<close>, \<open>message\<close>, ...): none of
  them is a built-in property of a string, a number, a boolean, an array or an object.
\<close>

fun member :: "jsval \<Rightarrow> string \<Rightarrow> jsval" where
  "member (Obj kvs) k = (case map_of kvs k of Some v \<Rightarrow> v | None \<Rightarrow> Undefined)"
| "member v k = Undefined"

text \<open>\<open>v?.k\<close>\<close>

definition opt_member :: "jsval \<Rightarrow> string \<Rightarrow> jsval" where
  "opt_member v k = (if nullish v then Undefined else member v k)"

text \<open>Decimal digits of an integer.\<close>

fun str_nat :: "nat \<Rightarrow> string" where
  "str_nat n =
     (if n < 10 then [char_of (48 + n)]
      else str_nat (n div 10) @ [char_of (48 + n mod 10)])"

declare str_nat.simps [simp del]

definition str_int :: "int \<Rightarrow> string" where
  "str_int i = (if i < 0 then CHR ''-'' # str_nat (nat (- i)) else str_nat (nat i))"

text \<open>
  \<open>String(v)\<close>, the conversion that a template literal and \<open>new Error(v)\<close> apply;
  \<open>None\<close> stands for the \<open>TypeError\<close> it raises. An array joins the conversions of
  its elements with commas, printing \<open>null\<close> and \<open>undefined\<close> elements as nothing. An
  object is converted by its \<open>toString\<close> method: the inherited one gives
  \<open>[object Object]\<close>; an own property named \<open>toString\<close> hides it, and since no JSON
  value can be called and \<open>valueOf\<close> gives the object back, the conversion raises.
\<close>

fun join_comma :: "string list \<Rightarrow> string" where
  "join_comma [] = []"
| "join_comma [s] = s"
| "join_comma (s # t # ss) = s @ CHR '','' # join_comma (t # ss)"

fun toString :: "jsval \<Rightarrow> string option" where
  "toString Undefined = Some ''undefined''"
| "toString Null = Some ''null''"
| "toString (Bool b) = Some (if b then ''true'' else ''false'')"
| "toString (Num n) = Some (str_int (sint n))"
| "toString (Str s) = Some s"
| "toString (Arr xs) =
     map_option join_comma (those (map (\<lambda>x. if nullish x then Some [] else toString x) xs))"
| "toString (Obj kvs) =
     (if map_of kvs ''toString'' = None then Some ''[object Object]'' else None)"

text \<open>A default parameter value \<open>f(p = d)\<close> applies when the argument is \<open>undefined\<close>.\<close>

definition default_param :: "jsval \<Rightarrow> jsval \<Rightarrow> jsval" where
  "default_param p d = (if p = Undefined then d else p)"

section \<open>Substring test\<close>

text \<open>\<open>s.includes(p)\<close>: \<open>p\<close> occurs in \<open>s\<close> at some position, case-sensitively.\<close>

fun str_includes :: "string \<Rightarrow> string \<Rightarrow> bool" where
  "str_includes [] p = (p = [])"
| "str_includes (c # cs) p = (prefix p (c # cs) \<or> str_includes cs p)"

section \<open>TTL classification\<close>

text \<open>\<open>F1ApiClient.getCacheTTL\<close> of the caching client: seconds to keep a response.\<close>

definition getCacheTTL :: "string \<Rightarrow> nat" where
  "getCacheTTL endpoint =
     (if str_includes endpoint ''current'' then 60
      else if str_includes endpoint ''standings'' \<or> str_includes endpoint ''results'' then 300
      else if str_includes endpoint ''drivers'' \<or> str_includes endpoint ''constructors'' then 3600
      else 1800)"

text \<open>
  The TTL classes as the specification words them: a path ``contains'' a word when the
  word is a contiguous sublist of it.
\<close>

datatype ttl_class = Live | Periodic | Reference | Default

definition ttl_seconds :: "ttl_class \<Rightarrow> nat" where
  "ttl_seconds c = (case c of Live \<Rightarrow> 60 | Periodic \<Rightarrow> 300 | Reference \<Rightarrow> 3600 | Default \<Rightarrow> 1800)"

definition classify_spec :: "string \<Rightarrow> ttl_class" where
  "classify_spec path =
     (if sublist ''current'' path then Live
      else if sublist ''standings'' path \<or> sublist ''results'' path then Periodic
      else if sublist ''drivers'' path \<or> sublist ''constructors'' path then Reference
      else Default)"

section \<open>Errors\<close>

text \<open>
  A JavaScript \<open>Error\<close> as the client's callers see it: its message and the two optional
  properties \<open>status\<close> and \<open>code\<close> that \<open>formatError\<close> sets (\<open>code\<close> is
  \<open>Undefined\<close> when the property is not set).
\<close>

record js_error =
  err_message :: string
  err_status :: "int option"
  err_code :: jsval

text \<open>The response object of the HTTP library: status and parsed body.\<close>

record axios_response =
  resp_status :: int
  resp_data :: jsval

text \<open>
  The error the HTTP library rejects with: an \<open>Error\<close> that carries the response
  when the server answered, and the request when one was sent.
\<close>

record axios_error = js_error +
  err_response :: "axios_response option"
  err_request :: bool

text \<open>
  Outcome of one GET, before the interceptors of the client run. The library resolves
  with the response when its status passes the default status check (200 to 299) and
  rejects otherwise.
\<close>

datatype axios_outcome = Resolved axios_response | Rejected axios_error

text \<open>The \<open>TypeError\<close> of a string conversion that fails.\<close>

definition conversion_error :: js_error where
  "conversion_error =
     \<lparr>err_message = ''Cannot convert object to primitive value'', err_status = None,
      err_code = Undefined\<rparr>"

text \<open>
  \<open>new Error(m)\<close>: the message is the string conversion of \<open>m\<close>, and empty when
  \<open>m\<close> is \<open>undefined\<close>. The constructor raises (\<open>Inl\<close>) what the conversion raises
  and returns (\<open>Inr\<close>) the new error otherwise.
\<close>

definition new_Error :: "jsval \<Rightarrow> js_error + js_error" where
  "new_Error m =
     (if m = Undefined then Inr \<lparr>err_message = [], err_status = None, err_code = Undefined\<rparr>
      else case toString m of
             None \<Rightarrow> Inl conversion_error
           | Some text \<Rightarrow> Inr \<lparr>err_message = text, err_status = None, err_code = Undefined\<rparr>)"

text \<open>The \<open>TypeError\<close> raised by reading property \<open>k\<close> of \<open>null\<close> or \<open>undefined\<close>.\<close>

definition type_error :: "jsval \<Rightarrow> string \<Rightarrow> js_error" where
  "type_error v k =
     \<lparr>err_message = ''Cannot read properties of '' @ (if v = Null then ''null'' else ''undefined'')
                     @ '' (reading '' @ [CHR 0x27] @ k @ [CHR 0x27] @ '')'',
      err_status = None, err_code = Undefined\<rparr>"

text \<open>
  \<open>F1ApiClient.formatError\<close> of the caching client. It returns (\<open>Inr\<close>) the formatted
  error, or raises (\<open>Inl\<close>) what \<open>new Error\<close> raises.
\<close>

definition formatError :: "axios_error \<Rightarrow> js_error + js_error" where
  "formatError error =
     (case err_response error of
        Some response \<Rightarrow>
          (case new_Error (or_else (opt_member (opt_member (resp_data response) ''error'') ''message'')
                                   (Str ''F1 API request failed'')) of
             Inl raised \<Rightarrow> Inl raised
           | Inr apiError \<Rightarrow>
               Inr (apiError
                     \<lparr>err_status := Some (resp_status response),
                      err_code := or_else (opt_member (opt_member (resp_data response) ''error'') ''code'')
                                          (Str ''API_ERROR'')\<rparr>))
      | None \<Rightarrow>
          if err_request error then
            Inr \<lparr>err_message = ''Jolpica F1 API service unavailable'', err_status = None,
                 err_code = Str ''NETWORK_ERROR''\<rparr>
          else
            Inr \<lparr>err_message = err_message error, err_status = err_status error,
                 err_code = err_code error\<rparr>)"

text \<open>\<open>F1ApiClient.formatError\<close> of the proxy client: another fixed network message.\<close>

definition proxy_formatError :: "axios_error \<Rightarrow> js_error + js_error" where
  "proxy_formatError error =
     (case err_response error of
        Some response \<Rightarrow>
          (case new_Error (or_else (opt_member (opt_member (resp_data response) ''error'') ''message'')
                                   (Str ''F1 API request failed'')) of
             Inl raised \<Rightarrow> Inl raised
           | Inr apiError \<Rightarrow>
               Inr (apiError
                     \<lparr>err_status := Some (resp_status response),
                      err_code := or_else (opt_member (opt_member (resp_data response) ''error'') ''code'')
                                          (Str ''API_ERROR'')\<rparr>))
      | None \<Rightarrow>
          if err_request error then
            Inr \<lparr>err_message = ''F1 API service unavailable'', err_status = None,
                 err_code = Str ''NETWORK_ERROR''\<rparr>
          else
            Inr \<lparr>err_message = err_message error, err_status = err_status error,
                 err_code = err_code error\<rparr>)"

text \<open>
  The three kinds of failure, as the specification words them: the upstream responded;
  the request was sent and no response arrived; anything else.
\<close>

datatype error_kind = UpstreamError | NetworkError | RequestError

definition failure_kind :: "axios_error \<Rightarrow> error_kind" where
  "failure_kind error =
     (if err_response error \<noteq> None then UpstreamError
      else if err_request error then NetworkError
      else RequestError)"

section \<open>The cache store\<close>

text \<open>
  Modelled from the spec: the cache store. The client keeps its entries in an object of
  the node-cache package, which is a dependency and not part of the sources. An entry is a
  value with an absolute expiry time in milliseconds; a lookup returns the value of an
  entry that has not expired and \<open>undefined\<close> otherwise; storing under a key replaces the
  entry with one that expires the given number of seconds later. An expired entry and a
  missing one are the same to every lookup, so the model does not say when an expired entry
  is dropped.
\<close>

record cache_entry =
  entry_value :: jsval
  entry_expiry :: nat

type_synonym cache_store = "string \<Rightarrow> cache_entry option"

definition live :: "nat \<Rightarrow> cache_entry \<Rightarrow> bool" where
  "live now e = (\<not> entry_expiry e < now)"

definition cache_get :: "nat \<Rightarrow> cache_store \<Rightarrow> string \<Rightarrow> jsval" where
  "cache_get now c key =
     (case c key of
        None \<Rightarrow> Undefined
      | Some e \<Rightarrow> if live now e then entry_value e else Undefined)"

definition cache_set :: "nat \<Rightarrow> cache_store \<Rightarrow> string \<Rightarrow> jsval \<Rightarrow> nat \<Rightarrow> cache_store" where
  "cache_set now c key val ttl =
     c(key \<mapsto> \<lparr>entry_value = val, entry_expiry = now + ttl * 1000\<rparr>)"

section \<open>The caching client\<close>

text \<open>
  A GET as the client issues it: the path and the query parameters. What the client cannot
  decide is given by the world of one invocation: the clock when the cache is looked up,
  the outcome of every GET the upstream would give, the clock when the response is stored,
  and the calendar year.
\<close>

type_synonym get_request = "string \<times> (string \<times> jsval) list"

record world =
  clock :: nat
  upstream :: "get_request \<Rightarrow> axios_outcome"
  arrival :: nat
  full_year :: int

text \<open>
  The state of the client: the cache and, to count upstream calls, the list of the GETs
  issued so far.
\<close>

record client_state =
  cache :: cache_store
  issued :: "get_request list"

text \<open>
  \<open>this.client.get\<close> with the response interceptors of \<open>setupInterceptors\<close>: a
  response is measured by \<open>JSON.stringify(response.data).length\<close>, which raises a
  \<open>TypeError\<close> when the body is \<open>undefined\<close>; a rejection is replaced by what
  \<open>formatError\<close> returns for it, or by what \<open>formatError\<close> raises.
\<close>

definition client_get :: "world \<Rightarrow> get_request \<Rightarrow> js_error + axios_response" where
  "client_get w req =
     (case upstream w req of
        Resolved response \<Rightarrow>
          if resp_data response = Undefined then Inl (type_error Undefined ''length'')
          else Inr response
      | Rejected error \<Rightarrow>
          (case formatError error of
             Inl raised \<Rightarrow> Inl raised
           | Inr formatted \<Rightarrow> Inl formatted))"

text \<open>\<open>F1ApiClient.makeRequest\<close>\<close>

definition makeRequest ::
  "world \<Rightarrow> string \<Rightarrow> client_state \<Rightarrow> (js_error + jsval) \<times> client_state" where
  "makeRequest w endpoint st =
     (let cacheKey = endpoint;
          cached = cache_get (clock w) (cache st) cacheKey
      in if truthy cached then (Inr cached, st)
         else
           (case client_get w (endpoint, []) of
              Inr response \<Rightarrow>
                (let data = resp_data response;
                     ttl = getCacheTTL endpoint
                 in (Inr data,
                     st\<lparr>cache := cache_set (arrival w) (cache st) cacheKey data ttl,
                        issued := issued st @ [(endpoint, [])]\<rparr>))
            | Inl error \<Rightarrow> (Inl error, st\<lparr>issued := issued st @ [(endpoint, [])]\<rparr>)))"

text \<open>\<open>F1ApiClient.healthCheck\<close> of the caching client.\<close>

definition healthCheck :: "world \<Rightarrow> client_state \<Rightarrow> bool \<times> client_state" where
  "healthCheck w st =
     (let req = (''/seasons.json'', [(''limit'', Num 1)])
      in (case client_get w req of
            Inr response \<Rightarrow> resp_status response = 200
          | Inl error \<Rightarrow> False,
          st\<lparr>issued := issued st @ [req]\<rparr>))"

section \<open>Operations of the caching client\<close>

text \<open>
  Every operation substitutes its parameters into the path, which raises the
  \<open>TypeError\<close> of a conversion that fails, awaits \<open>makeRequest\<close> and builds its result
  object from \<open>data.MRData\<close>. An error of \<open>makeRequest\<close> propagates; reading
  \<open>MRData\<close> of a \<open>null\<close> body raises a \<open>TypeError\<close>. The function \<open>build\<close>
  receives the value of \<open>data.MRData\<close> and gives the properties of the result in the
  order the source lists them.
\<close>

definition respond ::
  "(js_error + jsval) \<times> client_state \<Rightarrow> (jsval \<Rightarrow> (string \<times> jsval) list)
     \<Rightarrow> (js_error + jsval) \<times> client_state" where
  "respond r build =
     (case r of
        (Inl error, st) \<Rightarrow> (Inl error, st)
      | (Inr data, st) \<Rightarrow>
          (if nullish data then Inl (type_error data ''MRData'')
           else Inr (Obj (build (member data ''MRData''))), st))"

text \<open>\<open>F1ApiClient.getSeasons\<close>\<close>

definition getSeasons ::
  "world \<Rightarrow> client_state
     \<Rightarrow> (js_error + jsval) \<times> client_state" where
  "getSeasons w st =
     respond (makeRequest w ''/seasons.json'' st)
       (\<lambda>mrdata.
         [(''success'', Bool True),
          (''data'', or_else (opt_member (opt_member mrdata ''SeasonTable'') ''Seasons'') (Arr [])),
          (''total'', or_else (opt_member mrdata ''total'') (Str ''0''))])"

text \<open>\<open>F1ApiClient.getCurrentSeason\<close>\<close>

definition getCurrentSeason ::
  "world \<Rightarrow> client_state
     \<Rightarrow> (js_error + jsval) \<times> client_state" where
  "getCurrentSeason w st =
     respond (makeRequest w ''/current.json'' st)
       (\<lambda>mrdata.
         [(''success'', Bool True),
          (''data'', or_else (opt_member (opt_member mrdata ''RaceTable'') ''Races'') (Arr [])),
          (''season'', or_else (opt_member (opt_member mrdata ''RaceTable'') ''season'') (Str (str_int (full_year w))))])"

text \<open>\<open>F1ApiClient.getRaces\<close>\<close>

definition getRaces ::
  "world \<Rightarrow> jsval \<Rightarrow> client_state
     \<Rightarrow> (js_error + jsval) \<times> client_state" where
  "getRaces w season_arg st =
     (let season = default_param season_arg (Str ''current'')
      in case toString season of
           Some s \<Rightarrow>
             respond (makeRequest w (''/'' @ s @ ''.json'') st)
               (\<lambda>mrdata.
                 [(''success'', Bool True),
                  (''data'', or_else (opt_member (opt_member mrdata ''RaceTable'') ''Races'') (Arr [])),
                  (''season'', or_else (opt_member (opt_member mrdata ''RaceTable'') ''season'') season)])
         | _ \<Rightarrow> (Inl conversion_error, st))"

text \<open>\<open>F1ApiClient.getRace\<close>\<close>

definition getRace ::
  "world \<Rightarrow> jsval \<Rightarrow> jsval \<Rightarrow> client_state
     \<Rightarrow> (js_error + jsval) \<times> client_state" where
  "getRace w season round st =
     (case (toString season, toString round) of
        (Some s, Some r) \<Rightarrow>
          respond (makeRequest w (''/'' @ s @ ''/'' @ r @ ''.json'') st)
            (\<lambda>mrdata.
              [(''success'', Bool True),
               (''data'', or_else (opt_member (opt_member mrdata ''RaceTable'') ''Races'') (Arr [])),
               (''season'', or_else (opt_member (opt_member mrdata ''RaceTable'') ''season'') season),
               (''round'', or_else (opt_member (opt_member mrdata ''RaceTable'') ''round'') round)])
      | _ \<Rightarrow> (Inl conversion_error, st))"

text \<open>\<open>F1ApiClient.getCurrentRace\<close>\<close>

definition getCurrentRace ::
  "world \<Rightarrow> client_state
     \<Rightarrow> (js_error + jsval) \<times> client_state" where
  "getCurrentRace w st =
     respond (makeRequest w ''/current/last.json'' st)
       (\<lambda>mrdata.
         [(''success'', Bool True),
          (''data'', or_else (opt_member (opt_member mrdata ''RaceTable'') ''Races'') (Arr [])),
          (''season'', or_else (opt_member (opt_member mrdata ''RaceTable'') ''season'') (Str ''current''))])"

text \<open>\<open>F1ApiClient.getNextRace\<close>\<close>

definition getNextRace ::
  "world \<Rightarrow> client_state
     \<Rightarrow> (js_error + jsval) \<times> client_state" where
  "getNextRace w st =
     respond (makeRequest w ''/current/next.json'' st)
       (\<lambda>mrdata.
         [(''success'', Bool True),
          (''data'', or_else (opt_member (opt_member mrdata ''RaceTable'') ''Races'') (Arr [])),
          (''season'', or_else (opt_member (opt_member mrdata ''RaceTable'') ''season'') (Str ''current''))])"

text \<open>\<open>F1ApiClient.getDrivers\<close>\<close>

definition getDrivers ::
  "world \<Rightarrow> jsval \<Rightarrow> client_state
     \<Rightarrow> (js_error + jsval) \<times> client_state" where
  "getDrivers w season_arg st =
     (let season = default_param season_arg (Str ''current'')
      in case toString season of
           Some s \<Rightarrow>
             respond (makeRequest w (''/'' @ s @ ''/drivers.json'') st)
               (\<lambda>mrdata.
                 [(''success'', Bool True),
                  (''data'', or_else (opt_member (opt_member mrdata ''DriverTable'') ''Drivers'') (Arr [])),
                  (''season'', or_else (opt_member (opt_member mrdata ''DriverTable'') ''season'') season)])
         | _ \<Rightarrow> (Inl conversion_error, st))"

text \<open>\<open>F1ApiClient.getDriver\<close>\<close>

definition getDriver ::
  "world \<Rightarrow> jsval \<Rightarrow> jsval \<Rightarrow> client_state
     \<Rightarrow> (js_error + jsval) \<times> client_state" where
  "getDriver w driverId season_arg st =
     (let season = default_param season_arg (Str ''current'')
      in case (toString season, toString driverId) of
           (Some s, Some d) \<Rightarrow>
             respond (makeRequest w (''/'' @ s @ ''/drivers/'' @ d @ ''.json'') st)
               (\<lambda>mrdata.
                 [(''success'', Bool True),
                  (''data'', or_else (opt_member (opt_member mrdata ''DriverTable'') ''Drivers'') (Arr [])),
                  (''season'', or_else (opt_member (opt_member mrdata ''DriverTable'') ''season'') season),
                  (''driverId'', driverId)])
         | _ \<Rightarrow> (Inl conversion_error, st))"

text \<open>\<open>F1ApiClient.getConstructors\<close>\<close>

definition getConstructors ::
  "world \<Rightarrow> jsval \<Rightarrow> client_state
     \<Rightarrow> (js_error + jsval) \<times> client_state" where
  "getConstructors w season_arg st =
     (let season = default_param season_arg (Str ''current'')
      in case toString season of
           Some s \<Rightarrow>
             respond (makeRequest w (''/'' @ s @ ''/constructors.json'') st)
               (\<lambda>mrdata.
                 [(''success'', Bool True),
                  (''data'', or_else (opt_member (opt_member mrdata ''ConstructorTable'') ''Constructors'') (Arr [])),
                  (''season'', or_else (opt_member (opt_member mrdata ''ConstructorTable'') ''season'') season)])
         | _ \<Rightarrow> (Inl conversion_error, st))"

text \<open>\<open>F1ApiClient.getConstructor\<close>\<close>

definition getConstructor ::
  "world \<Rightarrow> jsval \<Rightarrow> jsval \<Rightarrow> client_state
     \<Rightarrow> (js_error + jsval) \<times> client_state" where
  "getConstructor w constructorId season_arg st =
     (let season = default_param season_arg (Str ''current'')
      in case (toString season, toString constructorId) of
           (Some s, Some d) \<Rightarrow>
             respond (makeRequest w (''/'' @ s @ ''/constructors/'' @ d @ ''.json'') st)
               (\<lambda>mrdata.
                 [(''success'', Bool True),
                  (''data'', or_else (opt_member (opt_member mrdata ''ConstructorTable'') ''Constructors'') (Arr [])),
                  (''season'', or_else (opt_member (opt_member mrdata ''ConstructorTable'') ''season'') season),
                  (''constructorId'', constructorId)])
         | _ \<Rightarrow> (Inl conversion_error, st))"

text \<open>\<open>F1ApiClient.getRaceResults\<close>\<close>

definition getRaceResults ::
  "world \<Rightarrow> jsval \<Rightarrow> jsval \<Rightarrow> client_state
     \<Rightarrow> (js_error + jsval) \<times> client_state" where
  "getRaceResults w season round st =
     (case (toString season, toString round) of
        (Some s, Some r) \<Rightarrow>
          respond (makeRequest w (''/'' @ s @ ''/'' @ r @ ''/results.json'') st)
            (\<lambda>mrdata.
              [(''success'', Bool True),
               (''data'', or_else (opt_member (opt_member mrdata ''RaceTable'') ''Races'') (Arr [])),
               (''season'', or_else (opt_member (opt_member mrdata ''RaceTable'') ''season'') season),
               (''round'', or_else (opt_member (opt_member mrdata ''RaceTable'') ''round'') round)])
      | _ \<Rightarrow> (Inl conversion_error, st))"

text \<open>\<open>F1ApiClient.getQualifyingResults\<close>\<close>

definition getQualifyingResults ::
  "world \<Rightarrow> jsval \<Rightarrow> jsval \<Rightarrow> client_state
     \<Rightarrow> (js_error + jsval) \<times> client_state" where
  "getQualifyingResults w season round st =
     (case (toString season, toString round) of
        (Some s, Some r) \<Rightarrow>
          respond (makeRequest w (''/'' @ s @ ''/'' @ r @ ''/qualifying.json'') st)
            (\<lambda>mrdata.
              [(''success'', Bool True),
               (''data'', or_else (opt_member (opt_member mrdata ''RaceTable'') ''Races'') (Arr [])),
               (''season'', or_else (opt_member (opt_member mrdata ''RaceTable'') ''season'') season),
               (''round'', or_else (opt_member (opt_member mrdata ''RaceTable'') ''round'') round)])
      | _ \<Rightarrow> (Inl conversion_error, st))"

text \<open>\<open>F1ApiClient.getDriverStandings\<close>\<close>

definition getDriverStandings ::
  "world \<Rightarrow> jsval \<Rightarrow> client_state
     \<Rightarrow> (js_error + jsval) \<times> client_state" where
  "getDriverStandings w season_arg st =
     (let season = default_param season_arg (Str ''current'')
      in case toString season of
           Some s \<Rightarrow>
             respond (makeRequest w (''/'' @ s @ ''/driverStandings.json'') st)
               (\<lambda>mrdata.
                 [(''success'', Bool True),
                  (''data'', or_else (opt_member (opt_member mrdata ''StandingsTable'') ''StandingsLists'') (Arr [])),
                  (''season'', or_else (opt_member (opt_member mrdata ''StandingsTable'') ''season'') season)])
         | _ \<Rightarrow> (Inl conversion_error, st))"

text \<open>\<open>F1ApiClient.getConstructorStandings\<close>\<close>

definition getConstructorStandings ::
  "world \<Rightarrow> jsval \<Rightarrow> client_state
     \<Rightarrow> (js_error + jsval) \<times> client_state" where
  "getConstructorStandings w season_arg st =
     (let season = default_param season_arg (Str ''current'')
      in case toString season of
           Some s \<Rightarrow>
             respond (makeRequest w (''/'' @ s @ ''/constructorStandings.json'') st)
               (\<lambda>mrdata.
                 [(''success'', Bool True),
                  (''data'', or_else (opt_member (opt_member mrdata ''StandingsTable'') ''StandingsLists'') (Arr [])),
                  (''season'', or_else (opt_member (opt_member mrdata ''StandingsTable'') ''season'') season)])
         | _ \<Rightarrow> (Inl conversion_error, st))"

section \<open>The proxy client\<close>

text \<open>
  The client of \<open>src/services/f1ApiClient.js\<close> has the same interceptors and no cache:
  its state is the list of the GETs issued. Every operation awaits one GET and returns
  \<open>response.data\<close>.
\<close>

definition proxy_client_get :: "world \<Rightarrow> get_request \<Rightarrow> js_error + axios_response" where
  "proxy_client_get w req =
     (case upstream w req of
        Resolved response \<Rightarrow>
          if resp_data response = Undefined then Inl (type_error Undefined ''length'')
          else Inr response
      | Rejected error \<Rightarrow>
          (case proxy_formatError error of
             Inl raised \<Rightarrow> Inl raised
           | Inr formatted \<Rightarrow> Inl formatted))"

definition proxy_fetch ::
  "world \<Rightarrow> string \<Rightarrow> get_request list \<Rightarrow> (js_error + jsval) \<times> get_request list" where
  "proxy_fetch w path log =
     (case proxy_client_get w (path, []) of
        Inr response \<Rightarrow> (Inr (resp_data response), log @ [(path, [])])
      | Inl error \<Rightarrow> (Inl error, log @ [(path, [])]))"

text \<open>\<open>F1ApiClient.healthCheck\<close> of the proxy client.\<close>

definition proxy_healthCheck :: "world \<Rightarrow> get_request list \<Rightarrow> bool \<times> get_request list" where
  "proxy_healthCheck w log =
     (case proxy_client_get w (''/health'', []) of
        Inr response \<Rightarrow> resp_status response = 200
      | Inl error \<Rightarrow> False,
      log @ [(''/health'', [])])"

definition proxy_getSeasons ::
  "world \<Rightarrow> get_request list
     \<Rightarrow> (js_error + jsval) \<times> get_request list" where
  "proxy_getSeasons w log =
     proxy_fetch w ''/api/seasons'' log"

definition proxy_getCurrentSeason ::
  "world \<Rightarrow> get_request list
     \<Rightarrow> (js_error + jsval) \<times> get_request list" where
  "proxy_getCurrentSeason w log =
     proxy_fetch w ''/api/seasons/current'' log"

definition proxy_getRaces ::
  "world \<Rightarrow> jsval \<Rightarrow> get_request list
     \<Rightarrow> (js_error + jsval) \<times> get_request list" where
  "proxy_getRaces w season_arg log =
     (let season = default_param season_arg (Str ''current'')
      in case toString season of
           Some s \<Rightarrow> proxy_fetch w (''/api/races/'' @ s) log
         | _ \<Rightarrow> (Inl conversion_error, log))"

definition proxy_getRace ::
  "world \<Rightarrow> jsval \<Rightarrow> jsval \<Rightarrow> get_request list
     \<Rightarrow> (js_error + jsval) \<times> get_request list" where
  "proxy_getRace w season round log =
     (case (toString season, toString round) of
        (Some s, Some r) \<Rightarrow> proxy_fetch w (''/api/races/'' @ s @ ''/'' @ r) log
      | _ \<Rightarrow> (Inl conversion_error, log))"

definition proxy_getCurrentRace ::
  "world \<Rightarrow> get_request list
     \<Rightarrow> (js_error + jsval) \<times> get_request list" where
  "proxy_getCurrentRace w log =
     proxy_fetch w ''/api/races/current/current'' log"

definition proxy_getNextRace ::
  "world \<Rightarrow> get_request list
     \<Rightarrow> (js_error + jsval) \<times> get_request list" where
  "proxy_getNextRace w log =
     proxy_fetch w ''/api/races/current/next'' log"

definition proxy_getDrivers ::
  "world \<Rightarrow> jsval \<Rightarrow> get_request list
     \<Rightarrow> (js_error + jsval) \<times> get_request list" where
  "proxy_getDrivers w season_arg log =
     (let season = default_param season_arg (Str ''current'')
      in case toString season of
           Some s \<Rightarrow> proxy_fetch w (''/api/drivers/'' @ s) log
         | _ \<Rightarrow> (Inl conversion_error, log))"

definition proxy_getDriver ::
  "world \<Rightarrow> jsval \<Rightarrow> jsval \<Rightarrow> get_request list
     \<Rightarrow> (js_error + jsval) \<times> get_request list" where
  "proxy_getDriver w driverId season_arg log =
     (let season = default_param season_arg (Str ''current'')
      in case (toString season, toString driverId) of
           (Some s, Some d) \<Rightarrow> proxy_fetch w (''/api/drivers/'' @ s @ ''/'' @ d) log
         | _ \<Rightarrow> (Inl conversion_error, log))"

definition proxy_getConstructors ::
  "world \<Rightarrow> jsval \<Rightarrow> get_request list
     \<Rightarrow> (js_error + jsval) \<times> get_request list" where
  "proxy_getConstructors w season_arg log =
     (let season = default_param season_arg (Str ''current'')
      in case toString season of
           Some s \<Rightarrow> proxy_fetch w (''/api/constructors/'' @ s) log
         | _ \<Rightarrow> (Inl conversion_error, log))"

definition proxy_getConstructor ::
  "world \<Rightarrow> jsval \<Rightarrow> jsval \<Rightarrow> get_request list
     \<Rightarrow> (js_error + jsval) \<times> get_request list" where
  "proxy_getConstructor w constructorId season_arg log =
     (let season = default_param season_arg (Str ''current'')
      in case (toString season, toString constructorId) of
           (Some s, Some d) \<Rightarrow> proxy_fetch w (''/api/constructors/'' @ s @ ''/'' @ d) log
         | _ \<Rightarrow> (Inl conversion_error, log))"

definition proxy_getRaceResults ::
  "world \<Rightarrow> jsval \<Rightarrow> jsval \<Rightarrow> get_request list
     \<Rightarrow> (js_error + jsval) \<times> get_request list" where
  "proxy_getRaceResults w season round log =
     (case (toString season, toString round) of
        (Some s, Some r) \<Rightarrow> proxy_fetch w (''/api/results/'' @ s @ ''/'' @ r) log
      | _ \<Rightarrow> (Inl conversion_error, log))"

definition proxy_getQualifyingResults ::
  "world \<Rightarrow> jsval \<Rightarrow> jsval \<Rightarrow> get_request list
     \<Rightarrow> (js_error + jsval) \<times> get_request list" where
  "proxy_getQualifyingResults w season round log =
     (case (toString season, toString round) of
        (Some s, Some r) \<Rightarrow> proxy_fetch w (''/api/results/'' @ s @ ''/'' @ r @ ''/qualifying'') log
      | _ \<Rightarrow> (Inl conversion_error, log))"

definition proxy_getDriverStandings ::
  "world \<Rightarrow> jsval \<Rightarrow> get_request list
     \<Rightarrow> (js_error + jsval) \<times> get_request list" where
  "proxy_getDriverStandings w season_arg log =
     (let season = default_param season_arg (Str ''current'')
      in case toString season of
           Some s \<Rightarrow> proxy_fetch w (''/api/results/'' @ s @ ''/drivers'') log
         | _ \<Rightarrow> (Inl conversion_error, log))"

definition proxy_getConstructorStandings ::
  "world \<Rightarrow> jsval \<Rightarrow> get_request list
     \<Rightarrow> (js_error + jsval) \<times> get_request list" where
  "proxy_getConstructorStandings w season_arg log =
     (let season = default_param season_arg (Str ''current'')
      in case toString season of
           Some s \<Rightarrow> proxy_fetch w (''/api/results/'' @ s @ ''/constructors'') log
         | _ \<Rightarrow> (Inl conversion_error, log))"

section \<open>Endpoint requests\<close>

text \<open>
  An endpoint request is a logical operation with its parameter values. \<open>invoke\<close>
  calls the operation of the caching client and \<open>proxy_invoke\<close> the one of the proxy
  client.
\<close>

datatype request =
    GetSeasons
  | GetCurrentSeason
  | GetRaces jsval
  | GetRace jsval jsval
  | GetCurrentRace
  | GetNextRace
  | GetDrivers jsval
  | GetDriver jsval jsval
  | GetConstructors jsval
  | GetConstructor jsval jsval
  | GetRaceResults jsval jsval
  | GetQualifyingResults jsval jsval
  | GetDriverStandings jsval
  | GetConstructorStandings jsval

fun invoke ::
  "world \<Rightarrow> request \<Rightarrow> client_state \<Rightarrow> (js_error + jsval) \<times> client_state" where
  "invoke w GetSeasons st =
     getSeasons w st"
| "invoke w GetCurrentSeason st =
     getCurrentSeason w st"
| "invoke w (GetRaces season) st =
     getRaces w season st"
| "invoke w (GetRace season round) st =
     getRace w season round st"
| "invoke w GetCurrentRace st =
     getCurrentRace w st"
| "invoke w GetNextRace st =
     getNextRace w st"
| "invoke w (GetDrivers season) st =
     getDrivers w season st"
| "invoke w (GetDriver driverId season) st =
     getDriver w driverId season st"
| "invoke w (GetConstructors season) st =
     getConstructors w season st"
| "invoke w (GetConstructor constructorId season) st =
     getConstructor w constructorId season st"
| "invoke w (GetRaceResults season round) st =
     getRaceResults w season round st"
| "invoke w (GetQualifyingResults season round) st =
     getQualifyingResults w season round st"
| "invoke w (GetDriverStandings season) st =
     getDriverStandings w season st"
| "invoke w (GetConstructorStandings season) st =
     getConstructorStandings w season st"

fun proxy_invoke ::
  "world \<Rightarrow> request \<Rightarrow> get_request list \<Rightarrow> (js_error + jsval) \<times> get_request list" where
  "proxy_invoke w GetSeasons log =
     proxy_getSeasons w log"
| "proxy_invoke w GetCurrentSeason log =
     proxy_getCurrentSeason w log"
| "proxy_invoke w (GetRaces season) log =
     proxy_getRaces w season log"
| "proxy_invoke w (GetRace season round) log =
     proxy_getRace w season round log"
| "proxy_invoke w GetCurrentRace log =
     proxy_getCurrentRace w log"
| "proxy_invoke w GetNextRace log =
     proxy_getNextRace w log"
| "proxy_invoke w (GetDrivers season) log =
     proxy_getDrivers w season log"
| "proxy_invoke w (GetDriver driverId season) log =
     proxy_getDriver w driverId season log"
| "proxy_invoke w (GetConstructors season) log =
     proxy_getConstructors w season log"
| "proxy_invoke w (GetConstructor constructorId season) log =
     proxy_getConstructor w constructorId season log"
| "proxy_invoke w (GetRaceResults season round) log =
     proxy_getRaceResults w season round log"
| "proxy_invoke w (GetQualifyingResults season round) log =
     proxy_getQualifyingResults w season round log"
| "proxy_invoke w (GetDriverStandings season) log =
     proxy_getDriverStandings w season log"
| "proxy_invoke w (GetConstructorStandings season) log =
     proxy_getConstructorStandings w season log"

text \<open>
  The text a season parameter contributes to the path: the conversion of the parameter,
  of \<open>'current'\<close> when it is omitted. \<open>endpoint\<close> is the resolved path of a request
  in the caching client, which \<open>makeRequest\<close> also takes as the cache key, and
  \<open>proxy_endpoint\<close> the one in the proxy client; a request has none when a parameter
  cannot be converted. \<open>arguments\<close> are the texts substituted into the path template,
  season first, and \<open>same_operation\<close> holds of two requests for the same operation.
\<close>

definition season_text :: "jsval \<Rightarrow> string option" where
  "season_text season = toString (default_param season (Str ''current''))"

fun endpoint ::
  "request \<Rightarrow> string option" where
  "endpoint GetSeasons =
     Some ''/seasons.json''"
| "endpoint GetCurrentSeason =
     Some ''/current.json''"
| "endpoint (GetRaces season) =
     (case season_text season of Some s \<Rightarrow> Some (''/'' @ s @ ''.json'') | _ \<Rightarrow> None)"
| "endpoint (GetRace season round) =
     (case (toString season, toString round) of (Some s, Some r) \<Rightarrow> Some (''/'' @ s @ ''/'' @ r @ ''.json'') | _ \<Rightarrow> None)"
| "endpoint GetCurrentRace =
     Some ''/current/last.json''"
| "endpoint GetNextRace =
     Some ''/current/next.json''"
| "endpoint (GetDrivers season) =
     (case season_text season of Some s \<Rightarrow> Some (''/'' @ s @ ''/drivers.json'') | _ \<Rightarrow> None)"
| "endpoint (GetDriver driverId season) =
     (case (season_text season, toString driverId) of (Some s, Some d) \<Rightarrow> Some (''/'' @ s @ ''/drivers/'' @ d @ ''.json'') | _ \<Rightarrow> None)"
| "endpoint (GetConstructors season) =
     (case season_text season of Some s \<Rightarrow> Some (''/'' @ s @ ''/constructors.json'') | _ \<Rightarrow> None)"
| "endpoint (GetConstructor constructorId season) =
     (case (season_text season, toString constructorId) of (Some s, Some d) \<Rightarrow> Some (''/'' @ s @ ''/constructors/'' @ d @ ''.json'') | _ \<Rightarrow> None)"
| "endpoint (GetRaceResults season round) =
     (case (toString season, toString round) of (Some s, Some r) \<Rightarrow> Some (''/'' @ s @ ''/'' @ r @ ''/results.json'') | _ \<Rightarrow> None)"
| "endpoint (GetQualifyingResults season round) =
     (case (toString season, toString round) of (Some s, Some r) \<Rightarrow> Some (''/'' @ s @ ''/'' @ r @ ''/qualifying.json'') | _ \<Rightarrow> None)"
| "endpoint (GetDriverStandings season) =
     (case season_text season of Some s \<Rightarrow> Some (''/'' @ s @ ''/driverStandings.json'') | _ \<Rightarrow> None)"
| "endpoint (GetConstructorStandings season) =
     (case season_text season of Some s \<Rightarrow> Some (''/'' @ s @ ''/constructorStandings.json'') | _ \<Rightarrow> None)"

fun proxy_endpoint ::
  "request \<Rightarrow> string option" where
  "proxy_endpoint GetSeasons =
     Some ''/api/seasons''"
| "proxy_endpoint GetCurrentSeason =
     Some ''/api/seasons/current''"
| "proxy_endpoint (GetRaces season) =
     (case season_text season of Some s \<Rightarrow> Some (''/api/races/'' @ s) | _ \<Rightarrow> None)"
| "proxy_endpoint (GetRace season round) =
     (case (toString season, toString round) of (Some s, Some r) \<Rightarrow> Some (''/api/races/'' @ s @ ''/'' @ r) | _ \<Rightarrow> None)"
| "proxy_endpoint GetCurrentRace =
     Some ''/api/races/current/current''"
| "proxy_endpoint GetNextRace =
     Some ''/api/races/current/next''"
| "proxy_endpoint (GetDrivers season) =
     (case season_text season of Some s \<Rightarrow> Some (''/api/drivers/'' @ s) | _ \<Rightarrow> None)"
| "proxy_endpoint (GetDriver driverId season) =
     (case (season_text season, toString driverId) of (Some s, Some d) \<Rightarrow> Some (''/api/drivers/'' @ s @ ''/'' @ d) | _ \<Rightarrow> None)"
| "proxy_endpoint (GetConstructors season) =
     (case season_text season of Some s \<Rightarrow> Some (''/api/constructors/'' @ s) | _ \<Rightarrow> None)"
| "proxy_endpoint (GetConstructor constructorId season) =
     (case (season_text season, toString constructorId) of (Some s, Some d) \<Rightarrow> Some (''/api/constructors/'' @ s @ ''/'' @ d) | _ \<Rightarrow> None)"
| "proxy_endpoint (GetRaceResults season round) =
     (case (toString season, toString round) of (Some s, Some r) \<Rightarrow> Some (''/api/results/'' @ s @ ''/'' @ r) | _ \<Rightarrow> None)"
| "proxy_endpoint (GetQualifyingResults season round) =
     (case (toString season, toString round) of (Some s, Some r) \<Rightarrow> Some (''/api/results/'' @ s @ ''/'' @ r @ ''/qualifying'') | _ \<Rightarrow> None)"
| "proxy_endpoint (GetDriverStandings season) =
     (case season_text season of Some s \<Rightarrow> Some (''/api/results/'' @ s @ ''/drivers'') | _ \<Rightarrow> None)"
| "proxy_endpoint (GetConstructorStandings season) =
     (case season_text season of Some s \<Rightarrow> Some (''/api/results/'' @ s @ ''/constructors'') | _ \<Rightarrow> None)"

fun arguments ::
  "request \<Rightarrow> string list option" where
  "arguments GetSeasons =
     Some []"
| "arguments GetCurrentSeason =
     Some []"
| "arguments (GetRaces season) =
     (case season_text season of Some s \<Rightarrow> Some [s] | _ \<Rightarrow> None)"
| "arguments (GetRace season round) =
     (case (toString season, toString round) of (Some s, Some r) \<Rightarrow> Some [s, r] | _ \<Rightarrow> None)"
| "arguments GetCurrentRace =
     Some []"
| "arguments GetNextRace =
     Some []"
| "arguments (GetDrivers season) =
     (case season_text season of Some s \<Rightarrow> Some [s] | _ \<Rightarrow> None)"
| "arguments (GetDriver driverId season) =
     (case (season_text season, toString driverId) of (Some s, Some d) \<Rightarrow> Some [s, d] | _ \<Rightarrow> None)"
| "arguments (GetConstructors season) =
     (case season_text season of Some s \<Rightarrow> Some [s] | _ \<Rightarrow> None)"
| "arguments (GetConstructor constructorId season) =
     (case (season_text season, toString constructorId) of (Some s, Some d) \<Rightarrow> Some [s, d] | _ \<Rightarrow> None)"
| "arguments (GetRaceResults season round) =
     (case (toString season, toString round) of (Some s, Some r) \<Rightarrow> Some [s, r] | _ \<Rightarrow> None)"
| "arguments (GetQualifyingResults season round) =
     (case (toString season, toString round) of (Some s, Some r) \<Rightarrow> Some [s, r] | _ \<Rightarrow> None)"
| "arguments (GetDriverStandings season) =
     (case season_text season of Some s \<Rightarrow> Some [s] | _ \<Rightarrow> None)"
| "arguments (GetConstructorStandings season) =
     (case season_text season of Some s \<Rightarrow> Some [s] | _ \<Rightarrow> None)"

fun operation_name ::
  "request \<Rightarrow> string" where
  "operation_name GetSeasons =
     ''getSeasons''"
| "operation_name GetCurrentSeason =
     ''getCurrentSeason''"
| "operation_name (GetRaces season) =
     ''getRaces''"
| "operation_name (GetRace season round) =
     ''getRace''"
| "operation_name GetCurrentRace =
     ''getCurrentRace''"
| "operation_name GetNextRace =
     ''getNextRace''"
| "operation_name (GetDrivers season) =
     ''getDrivers''"
| "operation_name (GetDriver driverId season) =
     ''getDriver''"
| "operation_name (GetConstructors season) =
     ''getConstructors''"
| "operation_name (GetConstructor constructorId season) =
     ''getConstructor''"
| "operation_name (GetRaceResults season round) =
     ''getRaceResults''"
| "operation_name (GetQualifyingResults season round) =
     ''getQualifyingResults''"
| "operation_name (GetDriverStandings season) =
     ''getDriverStandings''"
| "operation_name (GetConstructorStandings season) =
     ''getConstructorStandings''"

definition same_operation :: "request \<Rightarrow> request \<Rightarrow> bool" where
  "same_operation a b = (operation_name a = operation_name b)"

text \<open>
  For a request with two parameters, the season text has no slash: the first slash after
  it in the path is then the one of the template.
\<close>

definition separable :: "request \<Rightarrow> bool" where
  "separable r =
     (case arguments r of Some (s # t # ts) \<Rightarrow> CHR ''/'' \<notin> set s | _ \<Rightarrow> True)"

text \<open>
  The properties of the result object of a request in the caching client, given the value
  of \<open>MRData\<close> in the response body: \<open>success\<close>, the list of the table the operation
  reads as \<open>data\<close> (an empty list when the body has none), and the season, round, total
  or identifier of the operation.
\<close>

fun result_fields ::
  "world \<Rightarrow> request \<Rightarrow> jsval \<Rightarrow> (string \<times> jsval) list" where
  "result_fields w GetSeasons mrdata =
     [(''success'', Bool True),
      (''data'', or_else (opt_member (opt_member mrdata ''SeasonTable'') ''Seasons'') (Arr [])),
      (''total'', or_else (opt_member mrdata ''total'') (Str ''0''))]"
| "result_fields w GetCurrentSeason mrdata =
     [(''success'', Bool True),
      (''data'', or_else (opt_member (opt_member mrdata ''RaceTable'') ''Races'') (Arr [])),
      (''season'', or_else (opt_member (opt_member mrdata ''RaceTable'') ''season'') (Str (str_int (full_year w))))]"
| "result_fields w (GetRaces season) mrdata =
     [(''success'', Bool True),
      (''data'', or_else (opt_member (opt_member mrdata ''RaceTable'') ''Races'') (Arr [])),
      (''season'', or_else (opt_member (opt_member mrdata ''RaceTable'') ''season'') (default_param season (Str ''current'')))]"
| "result_fields w (GetRace season round) mrdata =
     [(''success'', Bool True),
      (''data'', or_else (opt_member (opt_member mrdata ''RaceTable'') ''Races'') (Arr [])),
      (''season'', or_else (opt_member (opt_member mrdata ''RaceTable'') ''season'') season),
      (''round'', or_else (opt_member (opt_member mrdata ''RaceTable'') ''round'') round)]"
| "result_fields w GetCurrentRace mrdata =
     [(''success'', Bool True),
      (''data'', or_else (opt_member (opt_member mrdata ''RaceTable'') ''Races'') (Arr [])),
      (''season'', or_else (opt_member (opt_member mrdata ''RaceTable'') ''season'') (Str ''current''))]"
| "result_fields w GetNextRace mrdata =
     [(''success'', Bool True),
      (''data'', or_else (opt_member (opt_member mrdata ''RaceTable'') ''Races'') (Arr [])),
      (''season'', or_else (opt_member (opt_member mrdata ''RaceTable'') ''season'') (Str ''current''))]"
| "result_fields w (GetDrivers season) mrdata =
     [(''success'', Bool True),
      (''data'', or_else (opt_member (opt_member mrdata ''DriverTable'') ''Drivers'') (Arr [])),
      (''season'', or_else (opt_member (opt_member mrdata ''DriverTable'') ''season'') (default_param season (Str ''current'')))]"
| "result_fields w (GetDriver driverId season) mrdata =
     [(''success'', Bool True),
      (''data'', or_else (opt_member (opt_member mrdata ''DriverTable'') ''Drivers'') (Arr [])),
      (''season'', or_else (opt_member (opt_member mrdata ''DriverTable'') ''season'') (default_param season (Str ''current''))),
      (''driverId'', driverId)]"
| "result_fields w (GetConstructors season) mrdata =
     [(''success'', Bool True),
      (''data'', or_else (opt_member (opt_member mrdata ''ConstructorTable'') ''Constructors'') (Arr [])),
      (''season'', or_else (opt_member (opt_member mrdata ''ConstructorTable'') ''season'') (default_param season (Str ''current'')))]"
| "result_fields w (GetConstructor constructorId season) mrdata =
     [(''success'', Bool True),
      (''data'', or_else (opt_member (opt_member mrdata ''ConstructorTable'') ''Constructors'') (Arr [])),
      (''season'', or_else (opt_member (opt_member mrdata ''ConstructorTable'') ''season'') (default_param season (Str ''current''))),
      (''constructorId'', constructorId)]"
| "result_fields w (GetRaceResults season round) mrdata =
     [(''success'', Bool True),
      (''data'', or_else (opt_member (opt_member mrdata ''RaceTable'') ''Races'') (Arr [])),
      (''season'', or_else (opt_member (opt_member mrdata ''RaceTable'') ''season'') season),
      (''round'', or_else (opt_member (opt_member mrdata ''RaceTable'') ''round'') round)]"
| "result_fields w (GetQualifyingResults season round) mrdata =
     [(''success'', Bool True),
      (''data'', or_else (opt_member (opt_member mrdata ''RaceTable'') ''Races'') (Arr [])),
      (''season'', or_else (opt_member (opt_member mrdata ''RaceTable'') ''season'') season),
      (''round'', or_else (opt_member (opt_member mrdata ''RaceTable'') ''round'') round)]"
| "result_fields w (GetDriverStandings season) mrdata =
     [(''success'', Bool True),
      (''data'', or_else (opt_member (opt_member mrdata ''StandingsTable'') ''StandingsLists'') (Arr [])),
      (''season'', or_else (opt_member (opt_member mrdata ''StandingsTable'') ''season'') (default_param season (Str ''current'')))]"
| "result_fields w (GetConstructorStandings season) mrdata =
     [(''success'', Bool True),
      (''data'', or_else (opt_member (opt_member mrdata ''StandingsTable'') ''StandingsLists'') (Arr [])),
      (''season'', or_else (opt_member (opt_member mrdata ''StandingsTable'') ''season'') (default_param season (Str ''current'')))]"
section \<open>Notions of the specification\<close>

text \<open>A status of the 2xx class.\<close>

definition is_2xx :: "int \<Rightarrow> bool" where
  "is_2xx status = (200 \<le> status \<and> status < 300)"

text \<open>No live entry under a key: none at all, or an expired one.\<close>

definition no_live_entry :: "nat \<Rightarrow> cache_store \<Rightarrow> string \<Rightarrow> bool" where
  "no_live_entry now c key = (case c key of None \<Rightarrow> True | Some e \<Rightarrow> \<not> live now e)"

text \<open>The \<open>error.message\<close> and \<open>error.code\<close> of an error body.\<close>

definition body_error :: "axios_response \<Rightarrow> string \<Rightarrow> jsval" where
  "body_error response field = opt_member (opt_member (resp_data response) ''error'') field"

text \<open>
  The Normalized Error of a failure, by its kind, as the specification words it: for a
  response of the upstream, the upstream status, the code of the response body if present
  (\<open>API_ERROR\<close> is what the clients put otherwise) and the message of the body, the
  generic one if the body supplies none; for a request without response, the fixed message
  that the service is unavailable; for any other failure, the error as it is.
\<close>

definition normalized :: "string \<Rightarrow> axios_error \<Rightarrow> js_error \<Rightarrow> bool" where
  "normalized unavailable error e =
     (case failure_kind error of
        UpstreamError \<Rightarrow>
          (case err_response error of
             None \<Rightarrow> False
           | Some response \<Rightarrow>
               err_status e = Some (resp_status response)
               \<and> err_code e = or_else (body_error response ''code'') (Str ''API_ERROR'')
               \<and> toString (or_else (body_error response ''message'')
                                    (Str ''F1 API request failed'')) = Some (err_message e))
      | NetworkError \<Rightarrow>
          e = \<lparr>err_message = unavailable, err_status = None, err_code = Str ''NETWORK_ERROR''\<rparr>
      | RequestError \<Rightarrow>
          e = \<lparr>err_message = err_message error, err_status = err_status error,
               err_code = err_code error\<rparr>)"

section \<open>Concrete surroundings\<close>

text \<open>An upstream that gives one outcome to every GET, and a cache with no entry.\<close>

definition answering :: "axios_outcome \<Rightarrow> get_request \<Rightarrow> axios_outcome" where
  "answering outcome req = outcome"

definition no_entries :: cache_store where
  "no_entries key = None"

text \<open>
  A world in which every GET has the given outcome and a response arrives a quarter of a
  second after the cache was looked up; a client that has not been used.
\<close>

definition world_at :: "nat \<Rightarrow> axios_outcome \<Rightarrow> world" where
  "world_at now outcome =
     \<lparr>clock = now, upstream = answering outcome, arrival = now + 250, full_year = 2026\<rparr>"

definition fresh_client :: client_state where
  "fresh_client = \<lparr>cache = no_entries, issued = []\<rparr>"

text \<open>A response with status 200 and the given body.\<close>

definition ok_response :: "jsval \<Rightarrow> axios_outcome" where
  "ok_response body = Resolved \<lparr>resp_status = 200, resp_data = body\<rparr>"

text \<open>The error of the HTTP library when the timeout passes: a request, no response.\<close>

definition timeout_error :: axios_error where
  "timeout_error =
     \<lparr>err_message = ''timeout of 10000ms exceeded'', err_status = None,
      err_code = Str ''ECONNABORTED'', err_response = None, err_request = True\<rparr>"

text \<open>
  The error of the HTTP library when the upstream answers with status 500 and the given
  body.
\<close>

definition server_error :: "jsval \<Rightarrow> axios_error" where
  "server_error body =
     \<lparr>err_message = ''Request failed with status code 500'', err_status = Some 500,
      err_code = Str ''ERR_BAD_RESPONSE'',
      err_response = Some \<lparr>resp_status = 500, resp_data = body\<rparr>, err_request = True\<rparr>"

text \<open>
  An error body whose message is the JSON object \<open>{"toString": 1}\<close>, which cannot be
  converted to a string.
\<close>

definition unprintable_body :: jsval where
  "unprintable_body = Obj [(''error'', Obj [(''message'', Obj [(''toString'', Num 1)])])]"

text \<open>A body of the shape the upstream sends for the races of a season.\<close>

definition race_list :: jsval where
  "race_list = Arr [Obj [(''round'', Str ''1''), (''raceName'', Str ''Bahrain Grand Prix'')]]"

definition races_body :: "string \<Rightarrow> jsval" where
  "races_body season =
     Obj [(''MRData'',
           Obj [(''total'', Str ''1''),
                (''RaceTable'', Obj [(''season'', Str season), (''Races'', race_list)])])]"

section \<open>Properties\<close>

lemma includes_sublist: "str_includes s p \<longleftrightarrow> sublist p s"
  by (induction s) (auto simp: sublist_Cons_right)

text \<open>
  C1. For every resolved path the TTL chosen by \<open>getCacheTTL\<close> is the duration of the
  class the specification's substring rules assign, in their precedence order: a path
  containing "current" gets 60 seconds whatever else it contains; otherwise one
  containing "standings" or "results" gets 300; otherwise one containing "drivers" or
  "constructors" gets 3600; every other path gets 1800.
\<close>

theorem getCacheTTL_classification:
  "getCacheTTL path = ttl_seconds (classify_spec path)
   \<and> (sublist ''current'' path \<longrightarrow> getCacheTTL path = 60)
   \<and> (\<not> sublist ''current'' path \<and> (sublist ''standings'' path \<or> sublist ''results'' path)
        \<longrightarrow> getCacheTTL path = 300)
   \<and> (\<not> sublist ''current'' path \<and> \<not> sublist ''standings'' path \<and> \<not> sublist ''results'' path
        \<and> (sublist ''drivers'' path \<or> sublist ''constructors'' path)
        \<longrightarrow> getCacheTTL path = 3600)
   \<and> (\<not> sublist ''current'' path \<and> \<not> sublist ''standings'' path \<and> \<not> sublist ''results'' path
        \<and> \<not> sublist ''drivers'' path \<and> \<not> sublist ''constructors'' path
        \<longrightarrow> getCacheTTL path = 1800)"
  by (simp add: getCacheTTL_def classify_spec_def ttl_seconds_def includes_sublist)

theorem getCacheTTL_classification_witness:
  "sublist ''current'' ''/current/drivers.json'' \<and> getCacheTTL ''/current/drivers.json'' = 60
   \<and> \<not> sublist ''current'' ''/2024/5/results.json'' \<and> sublist ''results'' ''/2024/5/results.json''
   \<and> getCacheTTL ''/2024/5/results.json'' = 300
   \<and> sublist ''drivers'' ''/2024/drivers.json'' \<and> getCacheTTL ''/2024/drivers.json'' = 3600
   \<and> getCacheTTL ''/2024.json'' = 1800"
  using getCacheTTL_classification [of "''/current/drivers.json''"]
        getCacheTTL_classification [of "''/2024/5/results.json''"]
        getCacheTTL_classification [of "''/2024/drivers.json''"]
        getCacheTTL_classification [of "''/2024.json''"]
  by (simp add: sublist_code(3))

subsection \<open>Error formatting\<close>

text \<open>
  When the upstream responded, \<open>formatError\<close> returns an error that carries the upstream
  status, the code of the response body when it is truthy and \<open>API_ERROR\<close> otherwise, and
  as message the text of the body's message when it is truthy and of the generic
  "F1 API request failed" otherwise, provided that the message can be converted to a
  string.
\<close>

lemma formatError_upstream:
  assumes "err_response error = Some response"
    and "toString (or_else (body_error response ''message'') (Str ''F1 API request failed'')) = Some text"
  shows "formatError error =
           Inr \<lparr>err_message = text, err_status = Some (resp_status response),
                err_code = or_else (body_error response ''code'') (Str ''API_ERROR'')\<rparr>"
proof -
  have "or_else (body_error response ''message'') (Str ''F1 API request failed'') \<noteq> Undefined"
    by (auto simp: or_else_def)
  then show ?thesis
    using assms by (simp add: formatError_def new_Error_def body_error_def)
qed

lemma formatError_generic_message:
  assumes "err_response error = Some response" and "\<not> truthy (body_error response ''message'')"
  shows "formatError error =
           Inr \<lparr>err_message = ''F1 API request failed'', err_status = Some (resp_status response),
                err_code = or_else (body_error response ''code'') (Str ''API_ERROR'')\<rparr>"
  using assms formatError_upstream [of error response "''F1 API request failed''"]
  by (simp add: or_else_def)

text \<open>
  When the request was sent and no response arrived, \<open>formatError\<close> returns the fixed
  message that the service is unavailable, with the code \<open>NETWORK_ERROR\<close>; any other
  failure is returned with its message, status and code unchanged.
\<close>

lemma formatError_network:
  assumes "err_response error = None" and "err_request error"
  shows "formatError error =
           Inr \<lparr>err_message = ''Jolpica F1 API service unavailable'', err_status = None,
                err_code = Str ''NETWORK_ERROR''\<rparr>"
  using assms by (simp add: formatError_def)

lemma formatError_request:
  assumes "err_response error = None" and "\<not> err_request error"
  shows "formatError error =
           Inr \<lparr>err_message = err_message error, err_status = err_status error,
                err_code = err_code error\<rparr>"
  using assms by (simp add: formatError_def)

text \<open>
  When the message of the body cannot be converted to a string, \<open>formatError\<close> raises
  the \<open>TypeError\<close> of the conversion.
\<close>

lemma formatError_raises:
  assumes "err_response error = Some response"
    and "toString (or_else (body_error response ''message'') (Str ''F1 API request failed'')) = None"
  shows "formatError error = Inl conversion_error"
proof -
  have "or_else (body_error response ''message'') (Str ''F1 API request failed'') \<noteq> Undefined"
    by (auto simp: or_else_def)
  then show ?thesis
    using assms by (simp add: formatError_def new_Error_def body_error_def)
qed

text \<open>
  C4. When the upstream answers with status 500 and a body whose \<open>error.message\<close> is
  the object \<open>{"toString": 1}\<close>, the failure is of the kind in which the upstream
  responded, but \<open>new Error\<close> raises while \<open>formatError\<close> builds the error: what the
  caller of \<open>getRaces\<close> receives is the \<open>TypeError\<close> of the conversion, which has
  no status and no code.
\<close>

theorem formatError_unprintable_message:
  "err_response (server_error unprintable_body)
     = Some \<lparr>resp_status = 500, resp_data = unprintable_body\<rparr>
   \<and> failure_kind (server_error unprintable_body) = UpstreamError
   \<and> formatError (server_error unprintable_body) = Inl conversion_error
   \<and> err_status conversion_error = None
   \<and> err_code conversion_error = Undefined
   \<and> fst (getRaces (world_at 1000 (Rejected (server_error unprintable_body))) (Str ''2024'')
          fresh_client) = Inl conversion_error"
  by (simp add: failure_kind_def server_error_def unprintable_body_def formatError_def
      new_Error_def or_else_def opt_member_def nullish_def conversion_error_def
      getRaces_def makeRequest_def client_get_def respond_def default_param_def
      world_at_def answering_def fresh_client_def no_entries_def cache_get_def Let_def)

subsection \<open>Steps of makeRequest\<close>

lemma makeRequest_hit:
  assumes "truthy (cache_get (clock w) (cache st) key)"
  shows "makeRequest w key st = (Inr (cache_get (clock w) (cache st) key), st)"
  using assms by (simp add: makeRequest_def Let_def)

lemma makeRequest_fetched:
  assumes "\<not> truthy (cache_get (clock w) (cache st) key)"
    and "client_get w (key, []) = Inr response"
  shows "makeRequest w key st =
           (Inr (resp_data response),
            st\<lparr>cache := cache_set (arrival w) (cache st) key (resp_data response) (getCacheTTL key),
               issued := issued st @ [(key, [])]\<rparr>)"
  using assms by (simp add: makeRequest_def Let_def)

lemma makeRequest_failed:
  assumes "\<not> truthy (cache_get (clock w) (cache st) key)"
    and "client_get w (key, []) = Inl error"
  shows "makeRequest w key st = (Inl error, st\<lparr>issued := issued st @ [(key, [])]\<rparr>)"
  using assms by (simp add: makeRequest_def Let_def)

lemma snd_respond: "snd (respond r build) = snd r"
  by (cases r) (auto simp: respond_def split: sum.splits)

lemma respond_same_fields:
  assumes "\<And>mrdata. build mrdata = build' mrdata"
  shows "respond r build = respond r build'"
proof -
  have "build = build'"
    using assms by (rule ext)
  then show ?thesis by simp
qed

text \<open>
  An operation whose path resolves awaits \<open>makeRequest\<close> of that path and builds the
  result from its properties; an operation with a parameter that cannot be converted
  raises the \<open>TypeError\<close> of the conversion and does nothing else.
\<close>

lemma invoke_resolved:
  assumes "endpoint r = Some key"
  shows "invoke w r st = respond (makeRequest w key st) (result_fields w r)"
  using assms
  by (cases r)
     (auto simp: getSeasons_def getCurrentSeason_def getRaces_def getRace_def getCurrentRace_def
        getNextRace_def getDrivers_def getDriver_def getConstructors_def getConstructor_def
        getRaceResults_def getQualifyingResults_def getDriverStandings_def
        getConstructorStandings_def season_text_def Let_def split: option.splits
        intro!: respond_same_fields)

lemma invoke_unresolved:
  assumes "endpoint r = None"
  shows "invoke w r st = (Inl conversion_error, st)"
  using assms
  by (cases r)
     (auto simp: getSeasons_def getCurrentSeason_def getRaces_def getRace_def getCurrentRace_def
        getNextRace_def getDrivers_def getDriver_def getConstructors_def getConstructor_def
        getRaceResults_def getQualifyingResults_def getDriverStandings_def
        getConstructorStandings_def season_text_def Let_def split: option.splits)

lemma miss_persists:
  assumes "\<not> truthy (cache_get now c key)" and "now \<le> later"
  shows "\<not> truthy (cache_get later c key)"
  using assms by (auto simp: cache_get_def live_def split: option.splits if_splits)

lemma no_live_entry_get: "no_live_entry now c key \<Longrightarrow> cache_get now c key = Undefined"
  by (simp add: no_live_entry_def cache_get_def split: option.splits)

text \<open>
  C3. For every request that resolves to a cache key: when the invocation misses the cache
  and the upstream fetch fails, the invocation raises the error of the fetch unchanged, the
  cache is left as it was (no entry is created and an expired entry is not touched), one GET
  was issued, and the invocation that follows for the same request issues the GET again.
\<close>

theorem failed_fetch_not_cached:
  assumes key: "endpoint r = Some key"
    and miss: "\<not> truthy (cache_get (clock w) (cache st) key)"
    and failure: "client_get w (key, []) = Inl error"
    and next_miss: "clock w \<le> clock w'"
  shows "fst (invoke w r st) = Inl error
         \<and> cache (snd (invoke w r st)) = cache st
         \<and> issued (snd (invoke w r st)) = issued st @ [(key, [])]
         \<and> issued (snd (invoke w' r (snd (invoke w r st))))
             = issued st @ [(key, []), (key, [])]"
proof -
  let ?st' = "st\<lparr>issued := issued st @ [(key, [])]\<rparr>"
  have made: "makeRequest w key st = (Inl error, ?st')"
    using miss failure by (rule makeRequest_failed)
  have result: "invoke w r st = (Inl error, ?st')"
    using made by (simp add: invoke_resolved [OF key] respond_def)
  have miss': "\<not> truthy (cache_get (clock w') (cache ?st') key)"
    using miss_persists [OF miss next_miss] by simp
  have "issued (snd (makeRequest w' key ?st')) = issued ?st' @ [(key, [])]"
    using miss' by (cases "client_get w' (key, [])") (simp_all add: makeRequest_def Let_def)
  then have "issued (snd (invoke w' r ?st')) = issued ?st' @ [(key, [])]"
    by (simp add: invoke_resolved [OF key] snd_respond)
  then show ?thesis
    using result by simp
qed

theorem failed_fetch_not_cached_witness:
  "endpoint (GetRaces (Str ''2024'')) = Some ''/2024.json''
   \<and> \<not> truthy (cache_get (clock (world_at 5000 (Rejected timeout_error)))
         (cache (fresh_client\<lparr>cache := cache_set 0 no_entries ''/2024.json'' (races_body ''2024'') 1\<rparr>))
         ''/2024.json'')
   \<and> fst (invoke (world_at 5000 (Rejected timeout_error)) (GetRaces (Str ''2024''))
          (fresh_client\<lparr>cache := cache_set 0 no_entries ''/2024.json'' (races_body ''2024'') 1\<rparr>))
       = Inl \<lparr>err_message = ''Jolpica F1 API service unavailable'', err_status = None,
              err_code = Str ''NETWORK_ERROR''\<rparr>
   \<and> cache (snd (invoke (world_at 5000 (Rejected timeout_error)) (GetRaces (Str ''2024''))
          (fresh_client\<lparr>cache := cache_set 0 no_entries ''/2024.json'' (races_body ''2024'') 1\<rparr>)))
       = cache_set 0 no_entries ''/2024.json'' (races_body ''2024'') 1
   \<and> issued (snd (invoke (world_at 5001 (Rejected timeout_error)) (GetRaces (Str ''2024''))
          (snd (invoke (world_at 5000 (Rejected timeout_error)) (GetRaces (Str ''2024''))
             (fresh_client\<lparr>cache := cache_set 0 no_entries ''/2024.json'' (races_body ''2024'') 1\<rparr>)))))
       = [(''/2024.json'', []), (''/2024.json'', [])]"
proof -
  let ?w = "world_at 5000 (Rejected timeout_error)"
  let ?w' = "world_at 5001 (Rejected timeout_error)"
  let ?st = "fresh_client\<lparr>cache := cache_set 0 no_entries ''/2024.json'' (races_body ''2024'') 1\<rparr>"
  let ?r = "GetRaces (Str ''2024'')"
  let ?e = "\<lparr>err_message = ''Jolpica F1 API service unavailable'', err_status = None,
              err_code = Str ''NETWORK_ERROR''\<rparr>"
  have key: "endpoint ?r = Some ''/2024.json''"
    by (simp add: season_text_def default_param_def)
  have miss: "\<not> truthy (cache_get (clock ?w) (cache ?st) ''/2024.json'')"
    by (simp add: world_at_def fresh_client_def cache_get_def cache_set_def live_def)
  have failure: "client_get ?w (''/2024.json'', []) = Inl ?e"
    by (simp add: client_get_def world_at_def answering_def formatError_def timeout_error_def)
  have later: "clock ?w \<le> clock ?w'"
    by (simp add: world_at_def)
  show ?thesis
    using key miss failed_fetch_not_cached [OF key miss failure later]
    by (simp add: fresh_client_def)
qed

subsection \<open>Health check\<close>

text \<open>
  C8, as stated, fails: when the upstream answers the probe with status 204, a status of
  the 2xx class, \<open>healthCheck\<close> returns \<open>false\<close>.
\<close>

theorem healthCheck_2xx_counterexample:
  "is_2xx 204
   \<and> upstream (world_at 1000 (Resolved \<lparr>resp_status = 204, resp_data = Str ''''\<rparr>))
         (''/seasons.json'', [(''limit'', Num 1)])
       = Resolved \<lparr>resp_status = 204, resp_data = Str ''''\<rparr>
   \<and> fst (healthCheck (world_at 1000 (Resolved \<lparr>resp_status = 204, resp_data = Str ''''\<rparr>))
          fresh_client) = False"
  by (simp add: is_2xx_def world_at_def answering_def healthCheck_def client_get_def)

text \<open>
  C8, amended. \<open>healthCheck\<close> issues a single GET (\<open>/seasons.json\<close> limited to one
  result in the caching client, \<open>/health\<close> in the proxy client) and returns a boolean in
  every case: \<open>true\<close> exactly when the GET resolved with status 200, and \<open>false\<close> when
  the GET was rejected, the failure being caught.
\<close>

theorem healthCheck_status_200:
  "(upstream w (''/seasons.json'', [(''limit'', Num 1)]) = Resolved response
      \<and> resp_data response \<noteq> Undefined
      \<longrightarrow> fst (healthCheck w st) = (resp_status response = 200))
   \<and> (upstream w (''/seasons.json'', [(''limit'', Num 1)]) = Rejected error
      \<longrightarrow> fst (healthCheck w st) = False)
   \<and> snd (healthCheck w st) = st\<lparr>issued := issued st @ [(''/seasons.json'', [(''limit'', Num 1)])]\<rparr>
   \<and> (upstream w (''/health'', []) = Resolved response \<and> resp_data response \<noteq> Undefined
      \<longrightarrow> fst (proxy_healthCheck w log) = (resp_status response = 200))
   \<and> (upstream w (''/health'', []) = Rejected error \<longrightarrow> fst (proxy_healthCheck w log) = False)
   \<and> snd (proxy_healthCheck w log) = log @ [(''/health'', [])]"
  by (auto simp: healthCheck_def proxy_healthCheck_def client_get_def proxy_client_get_def Let_def
      split: sum.splits)

theorem healthCheck_status_200_witness:
  "fst (healthCheck (world_at 1000 (ok_response (races_body ''2024''))) fresh_client) = True
   \<and> fst (healthCheck (world_at 1000 (Rejected timeout_error)) fresh_client) = False
   \<and> snd (healthCheck (world_at 1000 (ok_response (races_body ''2024''))) fresh_client)
       = fresh_client\<lparr>issued := [(''/seasons.json'', [(''limit'', Num 1)])]\<rparr>
   \<and> fst (proxy_healthCheck (world_at 1000 (ok_response (races_body ''2024''))) []) = True
   \<and> fst (proxy_healthCheck (world_at 1000 (Rejected timeout_error)) []) = False
   \<and> snd (proxy_healthCheck (world_at 1000 (Rejected timeout_error)) []) = [(''/health'', [])]"
  using healthCheck_status_200 [where w = "world_at 1000 (ok_response (races_body ''2024''))"
          and response = "\<lparr>resp_status = 200, resp_data = races_body ''2024''\<rparr>"
          and st = fresh_client and log = "[]"]
        healthCheck_status_200 [where w = "world_at 1000 (Rejected timeout_error)"
          and error = timeout_error and st = fresh_client and log = "[]"]
  by (simp add: world_at_def answering_def ok_response_def races_body_def fresh_client_def)

subsection \<open>Races of a season\<close>

text \<open>
  C7, as stated, fails: after the races of season "2024" were fetched on a miss, the cache
  has no entry under the key \<open>races:2024\<close>; the body is kept under the resolved path
  \<open>/2024.json\<close>, for 1800 seconds from its arrival.
\<close>

theorem getRaces_2024_key_counterexample:
  "no_live_entry (clock (world_at 1000 (ok_response (races_body ''2024''))))
       (cache fresh_client) ''/2024.json''
   \<and> cache (snd (getRaces (world_at 1000 (ok_response (races_body ''2024''))) (Str ''2024'')
          fresh_client)) ''races:2024'' = None
   \<and> cache (snd (getRaces (world_at 1000 (ok_response (races_body ''2024''))) (Str ''2024'')
          fresh_client)) ''/2024.json''
       = Some \<lparr>entry_value = races_body ''2024'', entry_expiry = 1250 + 1800 * 1000\<rparr>"
  by (simp add: getRaces_def makeRequest_def client_get_def respond_def default_param_def
      world_at_def answering_def ok_response_def fresh_client_def no_entries_def cache_get_def
      cache_set_def no_live_entry_def getCacheTTL_def races_body_def Let_def)

text \<open>
  C7, amended. Requesting the races of season "2024" when the cache has no live entry
  under \<open>/2024.json\<close> issues one GET of \<open>/2024.json\<close>; when the upstream returns a body
  with a race list, the operation returns the object with \<open>success\<close>, that list as
  \<open>data\<close> and the season, and the whole body is stored under the cache key
  \<open>/2024.json\<close> with a TTL of 1800 seconds.
\<close>

theorem getRaces_2024_miss:
  assumes miss: "no_live_entry (clock w) (cache st) ''/2024.json''"
    and fetched: "upstream w (''/2024.json'', []) = Resolved response"
    and body: "opt_member (opt_member (member (resp_data response) ''MRData'') ''RaceTable'') ''Races''
               = Arr races"
  shows "getRaces w (Str ''2024'') st =
           (Inr (Obj [(''success'', Bool True),
                      (''data'', Arr races),
                      (''season'',
                       or_else (opt_member (opt_member (member (resp_data response) ''MRData'')
                                   ''RaceTable'') ''season'') (Str ''2024''))]),
            st\<lparr>cache := (cache st)(''/2024.json'' \<mapsto>
                           \<lparr>entry_value = resp_data response,
                            entry_expiry = arrival w + 1800 * 1000\<rparr>),
               issued := issued st @ [(''/2024.json'', [])]\<rparr>)"
proof -
  have data: "\<not> nullish (resp_data response)"
    using body by (auto simp: nullish_def opt_member_def)
  then have got: "client_get w (''/2024.json'', []) = Inr response"
    using fetched by (simp add: client_get_def nullish_def)
  have "\<not> truthy (cache_get (clock w) (cache st) ''/2024.json'')"
    using miss by (simp add: no_live_entry_get)
  then have "makeRequest w ''/2024.json'' st =
      (Inr (resp_data response),
       st\<lparr>cache := cache_set (arrival w) (cache st) ''/2024.json'' (resp_data response)
                      (getCacheTTL ''/2024.json''),
          issued := issued st @ [(''/2024.json'', [])]\<rparr>)"
    using got by (rule makeRequest_fetched)
  moreover have "getCacheTTL ''/2024.json'' = 1800"
    by (simp add: getCacheTTL_def)
  ultimately show ?thesis
    using data body
    by (simp add: getRaces_def default_param_def respond_def cache_set_def or_else_def)
qed

theorem getRaces_2024_miss_witness:
  "no_live_entry 1000 no_entries ''/2024.json''
   \<and> getRaces (world_at 1000 (ok_response (races_body ''2024''))) (Str ''2024'') fresh_client =
       (Inr (Obj [(''success'', Bool True), (''data'', race_list), (''season'', Str ''2024'')]),
        \<lparr>cache = no_entries(''/2024.json'' \<mapsto>
                   \<lparr>entry_value = races_body ''2024'', entry_expiry = 1801250\<rparr>),
         issued = [(''/2024.json'', [])]\<rparr>)"
proof -
  let ?w = "world_at 1000 (ok_response (races_body ''2024''))"
  let ?response = "\<lparr>resp_status = 200, resp_data = races_body ''2024''\<rparr>"
  have miss: "no_live_entry (clock ?w) (cache fresh_client) ''/2024.json''"
    by (simp add: no_live_entry_def fresh_client_def no_entries_def)
  have fetched: "upstream ?w (''/2024.json'', []) = Resolved ?response"
    by (simp add: world_at_def answering_def ok_response_def)
  have body: "opt_member (opt_member (member (resp_data ?response) ''MRData'') ''RaceTable'') ''Races''
              = Arr [Obj [(''round'', Str ''1''), (''raceName'', Str ''Bahrain Grand Prix'')]]"
    by (simp add: races_body_def race_list_def opt_member_def nullish_def)
  show ?thesis
    using miss getRaces_2024_miss [OF miss fetched body]
    by (simp add: world_at_def fresh_client_def races_body_def race_list_def opt_member_def
        nullish_def or_else_def)
qed

subsection \<open>Cache hits\<close>

lemma respond_hit:
  assumes "truthy data"
  shows "respond (Inr data, st) build = (Inr (Obj (build (member data ''MRData''))), st)"
proof -
  have "\<not> nullish data"
    using assms by (auto simp: nullish_def)
  then show ?thesis
    by (simp add: respond_def)
qed

text \<open>
  A live entry with a truthy value (every JSON object and array is truthy) is a hit: the
  operation returns the result built from the entry, issues no GET, leaves the state as it
  is and cannot fail.
\<close>

lemma invoke_hit:
  assumes "endpoint r = Some key"
    and "cache st key = Some e" and "live (clock w) e" and "truthy (entry_value e)"
  shows "invoke w r st = (Inr (Obj (result_fields w r (member (entry_value e) ''MRData''))), st)"
proof -
  have got: "cache_get (clock w) (cache st) key = entry_value e"
    using assms by (simp add: cache_get_def)
  then have "makeRequest w key st = (Inr (entry_value e), st)"
    using assms(4) makeRequest_hit [of w st key] by simp
  then show ?thesis
    using respond_hit [OF assms(4)] by (simp add: invoke_resolved [OF assms(1)])
qed

text \<open>
  A live entry with a falsy value (the empty string, \<open>0\<close>, \<open>false\<close>, \<open>null\<close>) is
  not taken for a hit: \<open>makeRequest\<close> issues the GET.
\<close>

lemma falsy_entry_miss:
  assumes "cache st key = Some e" and "live (clock w) e" and "\<not> truthy (entry_value e)"
  shows "issued (snd (makeRequest w key st)) = issued st @ [(key, [])]"
proof -
  have "\<not> truthy (cache_get (clock w) (cache st) key)"
    using assms by (simp add: cache_get_def)
  then show ?thesis
    by (cases "client_get w (key, [])") (simp_all add: makeRequest_def Let_def)
qed

text \<open>
  C2. The hit is decided by \<open>if (cached)\<close>, the truthiness of the cached value. When the
  upstream answers the races of 2024 with status 200 and an empty body, the empty string is
  stored under \<open>/2024.json\<close> for 1800 seconds; one second later the entry is live, and
  the same request issues a second GET.
\<close>

theorem falsy_entry_is_fetched_again:
  "fst (getRaces (world_at 1000 (ok_response (Str ''''))) (Str ''2024'') fresh_client)
     = Inr (Obj [(''success'', Bool True), (''data'', Arr []), (''season'', Str ''2024'')])
   \<and> cache (snd (getRaces (world_at 1000 (ok_response (Str ''''))) (Str ''2024'') fresh_client))
         ''/2024.json''
       = Some \<lparr>entry_value = Str '''', entry_expiry = 1801250\<rparr>
   \<and> live 2000 \<lparr>entry_value = Str '''', entry_expiry = 1801250\<rparr>
   \<and> issued (snd (getRaces (world_at 2000 (ok_response (races_body ''2024''))) (Str ''2024'')
         (snd (getRaces (world_at 1000 (ok_response (Str ''''))) (Str ''2024'') fresh_client))))
       = [(''/2024.json'', []), (''/2024.json'', [])]"
  by (simp add: getRaces_def makeRequest_def client_get_def respond_def default_param_def
      world_at_def answering_def ok_response_def fresh_client_def no_entries_def cache_get_def
      cache_set_def live_def getCacheTTL_def races_body_def Let_def nullish_def or_else_def
      opt_member_def)

lemma str_int_2026: "str_int 2026 = ''2026''"
  by code_simp

lemma shared_key: "endpoint GetCurrentSeason = endpoint (GetRaces (Str ''current''))"
  by (simp add: season_text_def default_param_def)

text \<open>
  Both operations read the entry under \<open>/current.json\<close>: while it is live and its value
  truthy, neither issues a GET.
\<close>

lemma shared_entry_hit:
  assumes "cache st ''/current.json'' = Some e" and "live (clock w) e" and "truthy (entry_value e)"
  shows "issued (snd (getRaces w (Str ''current'') st)) = issued st
         \<and> issued (snd (getCurrentSeason w st)) = issued st"
  using invoke_hit [of "GetRaces (Str ''current'')" "''/current.json''" st e w]
        invoke_hit [of GetCurrentSeason "''/current.json''" st e w] assms
  by (simp add: season_text_def default_param_def)

text \<open>
  C10. \<open>getCurrentSeason()\<close> and \<open>getRaces("current")\<close> resolve to the same cache key
  \<open>/current.json\<close>. When the upstream answers \<open>getCurrentSeason\<close> with the body
  \<open>0\<close>, the operation succeeds and the body is stored for 60 seconds; one second later
  the entry is live, and \<open>getRaces("current")\<close> issues a GET of its own: the test
  \<open>if (cached)\<close> does not take the stored \<open>0\<close> for a hit.
\<close>

theorem current_season_falsy_body_not_shared:
  "endpoint GetCurrentSeason = Some ''/current.json''
   \<and> endpoint (GetRaces (Str ''current'')) = Some ''/current.json''
   \<and> fst (getCurrentSeason (world_at 1000 (ok_response (Num 0))) fresh_client)
       = Inr (Obj [(''success'', Bool True), (''data'', Arr []), (''season'', Str ''2026'')])
   \<and> cache (snd (getCurrentSeason (world_at 1000 (ok_response (Num 0))) fresh_client))
         ''/current.json''
       = Some \<lparr>entry_value = Num 0, entry_expiry = 61250\<rparr>
   \<and> live 2000 \<lparr>entry_value = Num 0, entry_expiry = 61250\<rparr>
   \<and> issued (snd (getRaces (world_at 2000 (ok_response (races_body ''2026''))) (Str ''current'')
         (snd (getCurrentSeason (world_at 1000 (ok_response (Num 0))) fresh_client))))
       = [(''/current.json'', []), (''/current.json'', [])]"
  by (simp add: getRaces_def getCurrentSeason_def makeRequest_def client_get_def respond_def
      default_param_def season_text_def
      world_at_def answering_def ok_response_def fresh_client_def no_entries_def cache_get_def
      cache_set_def live_def getCacheTTL_def races_body_def Let_def nullish_def or_else_def
      opt_member_def str_int_2026)

subsection \<open>Cache keys\<close>

lemma split_at_separator:
  assumes "c \<notin> set a" and "c \<notin> set a'"
  shows "a @ c # b = a' @ c # b' \<longleftrightarrow> a = a' \<and> b = b'"
  using assms
proof (induction a arbitrary: a')
  case Nil
  then show ?case by (cases a') auto
next
  case (Cons x a)
  then show ?case by (cases a') auto
qed

text \<open>
  C6, as stated, fails: two \<open>getDriver\<close> requests with different parameters resolve to
  the same path, which is the cache key, because a parameter may contain the slash of the
  path template.
\<close>

theorem cache_key_collision_counterexample:
  "same_operation (GetDriver (Str ''c'') (Str ''a/drivers/b''))
                  (GetDriver (Str ''b/drivers/c'') (Str ''a''))
   \<and> arguments (GetDriver (Str ''c'') (Str ''a/drivers/b'')) = Some [''a/drivers/b'', ''c'']
   \<and> arguments (GetDriver (Str ''b/drivers/c'') (Str ''a'')) = Some [''a'', ''b/drivers/c'']
   \<and> endpoint (GetDriver (Str ''c'') (Str ''a/drivers/b'')) = Some ''/a/drivers/b/drivers/c.json''
   \<and> endpoint (GetDriver (Str ''b/drivers/c'') (Str ''a'')) = Some ''/a/drivers/b/drivers/c.json''"
  by (simp add: same_operation_def season_text_def default_param_def)

text \<open>
  C6, amended. The cache key is a function of the request: equal requests have equal
  keys. Two requests for the same operation whose parameter texts differ have different
  keys, provided that, for an operation with two parameters, the season text contains no
  slash.
\<close>

theorem cache_key_injective:
  "(r1 = r2 \<longrightarrow> endpoint r1 = endpoint r2)
   \<and> (same_operation r1 r2 \<and> separable r1 \<and> separable r2 \<and> arguments r1 \<noteq> arguments r2
        \<longrightarrow> endpoint r1 \<noteq> endpoint r2)"
  by (cases r1; cases r2)
     (auto simp: same_operation_def separable_def split_at_separator split: option.splits)

theorem cache_key_injective_witness:
  "same_operation (GetDriver (Str ''hamilton'') (Str ''2024'')) (GetDriver (Str ''hamilton'') (Str ''2023''))
   \<and> separable (GetDriver (Str ''hamilton'') (Str ''2024''))
   \<and> separable (GetDriver (Str ''hamilton'') (Str ''2023''))
   \<and> arguments (GetDriver (Str ''hamilton'') (Str ''2024''))
       \<noteq> arguments (GetDriver (Str ''hamilton'') (Str ''2023''))
   \<and> endpoint (GetDriver (Str ''hamilton'') (Str ''2024''))
       \<noteq> endpoint (GetDriver (Str ''hamilton'') (Str ''2023''))
   \<and> endpoint (GetDriver (Str ''hamilton'') (Str ''2024''))
       = endpoint (GetDriver (Str ''hamilton'') (Str ''2024''))"
proof -
  let ?a = "GetDriver (Str ''hamilton'') (Str ''2024'')"
  let ?b = "GetDriver (Str ''hamilton'') (Str ''2023'')"
  have hyps: "same_operation ?a ?b \<and> separable ?a \<and> separable ?b \<and> arguments ?a \<noteq> arguments ?b"
    by (simp add: same_operation_def separable_def season_text_def default_param_def)
  show ?thesis
    using hyps cache_key_injective [of ?a ?b] cache_key_injective [of ?a ?a]
    by blast
qed

subsection \<open>Standings\<close>

lemma sublist_across_separator:
  assumes "c \<notin> set p"
  shows "sublist p (a @ c # b) \<longleftrightarrow> sublist p a \<or> sublist p b"
proof
  assume "sublist p (a @ c # b)"
  then consider "sublist p a" | "sublist p (c # b)"
    | p1 p2 where "p = p1 @ p2" "suffix p1 a" "prefix p2 (c # b)"
    unfolding sublist_append by blast
  then show "sublist p a \<or> sublist p b"
  proof cases
    case 1
    then show ?thesis by simp
  next
    case 2
    then have "prefix p (c # b) \<or> sublist p b"
      by (simp add: sublist_Cons_right)
    moreover have "p = []" if "prefix p (c # b)"
      using that assms by (cases p) auto
    ultimately show ?thesis by auto
  next
    case 3
    have "p2 = []"
      using 3(1,3) assms by (cases p2) auto
    then show ?thesis
      using 3(1,2) by auto
  qed
next
  assume "sublist p a \<or> sublist p b"
  then show "sublist p (a @ c # b)"
    by (auto simp: sublist_append sublist_Cons_right)
qed

text \<open>
  C9, as stated, fails: a season other than "current" may itself contain one of the words.
  For the season "results" the driver-standings path contains "results" and both standings
  operations get the periodic TTL of 300 seconds.
\<close>

theorem standings_counterexample:
  "Str ''results'' \<noteq> Str ''current''
   \<and> endpoint (GetDriverStandings (Str ''results'')) = Some ''/results/driverStandings.json''
   \<and> str_includes ''/results/driverStandings.json'' ''results''
   \<and> getCacheTTL ''/results/driverStandings.json'' = 300
   \<and> endpoint (GetConstructorStandings (Str ''results''))
       = Some ''/results/constructorStandings.json''
   \<and> getCacheTTL ''/results/constructorStandings.json'' = 300"
  by (simp add: season_text_def default_param_def getCacheTTL_def)

text \<open>
  C9, amended. The matching is case-sensitive, so \<open>driverStandings.json\<close> and
  \<open>constructorStandings.json\<close> contain none of the five lowercase words. For every season
  whose text contains none of "current", "standings", "results", "drivers" and
  "constructors" (a year such as "2024"), the paths of both standings operations are classified
  as default, and a response fetched on a miss is stored for 1800 seconds from its arrival.
\<close>

theorem standings_default_ttl:
  assumes "season_text season = Some s"
    and "\<not> sublist ''current'' s"
    and "\<not> sublist ''standings'' s"
    and "\<not> sublist ''results'' s"
    and "\<not> sublist ''drivers'' s"
    and "\<not> sublist ''constructors'' s"
    and "r = GetDriverStandings season \<or> r = GetConstructorStandings season"
  shows "\<exists>key. endpoint r = Some key
         \<and> getCacheTTL key = 1800
         \<and> (\<not> truthy (cache_get (clock w) (cache st) key)
              \<and> client_get w (key, []) = Inr response
            \<longrightarrow> cache (snd (invoke w r st)) key
                = Some \<lparr>entry_value = resp_data response, entry_expiry = arrival w + 1800 * 1000\<rparr>)"
proof -
  obtain key where key: "endpoint r = Some key"
    and shape: "key = [] @ CHR ''/'' # (s @ CHR ''/'' # ''driverStandings.json'')
          \<or> key = [] @ CHR ''/'' # (s @ CHR ''/'' # ''constructorStandings.json'')"
    using assms(1,7) by auto
  have none: "\<not> sublist p key"
    if "\<not> sublist p s" "CHR ''/'' \<notin> set p" "p \<noteq> []"
       "\<not> sublist p ''driverStandings.json''" "\<not> sublist p ''constructorStandings.json''" for p
    using shape that by (auto simp only: sublist_across_separator sublist_Nil_right)
  have ttl: "getCacheTTL key = 1800"
    unfolding getCacheTTL_def includes_sublist
    using assms(2-6) by (simp add: none sublist_code(3))
  have "cache (snd (invoke w r st)) key
          = Some \<lparr>entry_value = resp_data response, entry_expiry = arrival w + 1800 * 1000\<rparr>"
    if miss: "\<not> truthy (cache_get (clock w) (cache st) key)"
      and got: "client_get w (key, []) = Inr response"
  proof -
    have "snd (invoke w r st) = snd (makeRequest w key st)"
      by (simp add: invoke_resolved [OF key] snd_respond)
    then show ?thesis
      using makeRequest_fetched [OF miss got] ttl by (simp add: cache_set_def)
  qed
  then show ?thesis
    using key ttl by blast
qed

theorem standings_default_ttl_witness:
  "season_text (Str ''2024'') = Some ''2024''
   \<and> \<not> sublist ''current'' ''2024''
   \<and> \<not> sublist ''standings'' ''2024''
   \<and> \<not> sublist ''results'' ''2024''
   \<and> \<not> sublist ''drivers'' ''2024''
   \<and> \<not> sublist ''constructors'' ''2024''
   \<and> endpoint (GetDriverStandings (Str ''2024'')) = Some ''/2024/driverStandings.json''
   \<and> endpoint (GetConstructorStandings (Str ''2024'')) = Some ''/2024/constructorStandings.json''
   \<and> getCacheTTL ''/2024/driverStandings.json'' = 1800
   \<and> getCacheTTL ''/2024/constructorStandings.json'' = 1800
   \<and> cache (snd (getDriverStandings (world_at 1000 (ok_response (races_body ''2024'')))
          (Str ''2024'') fresh_client)) ''/2024/driverStandings.json''
       = Some \<lparr>entry_value = races_body ''2024'', entry_expiry = 1801250\<rparr>"
proof -
  let ?w = "world_at 1000 (ok_response (races_body ''2024''))"
  let ?response = "\<lparr>resp_status = 200, resp_data = races_body ''2024''\<rparr>"
  have shown: "season_text (Str ''2024'') = Some ''2024''"
    by (simp add: season_text_def default_param_def)
  have s1: "\<not> sublist ''current'' ''2024''"
    and s2: "\<not> sublist ''standings'' ''2024''"
    and s3: "\<not> sublist ''results'' ''2024''"
    and s4: "\<not> sublist ''drivers'' ''2024''"
    and s5: "\<not> sublist ''constructors'' ''2024''"
    by (simp_all add: sublist_code(3))
  have miss: "\<not> truthy (cache_get (clock ?w) (cache fresh_client) ''/2024/driverStandings.json'')"
    by (simp add: cache_get_def fresh_client_def no_entries_def)
  have got: "client_get ?w (''/2024/driverStandings.json'', []) = Inr ?response"
    by (simp add: client_get_def world_at_def answering_def ok_response_def races_body_def)
  show ?thesis
    using shown s1 s2 s3 s4 s5 miss got
      standings_default_ttl [OF shown s1 s2 s3 s4 s5, of "GetDriverStandings (Str ''2024'')"
        ?w fresh_client ?response]
      standings_default_ttl [OF shown s1 s2 s3 s4 s5, of "GetConstructorStandings (Str ''2024'')"
        ?w fresh_client ?response]
    by (simp add: world_at_def)
qed

subsection \<open>Results of the operations\<close>

lemma proxy_invoke_resolved:
  assumes "proxy_endpoint r = Some path"
  shows "proxy_invoke w r log = proxy_fetch w path log"
  using assms
  by (cases r)
     (auto simp: proxy_getSeasons_def proxy_getCurrentSeason_def proxy_getRaces_def
        proxy_getRace_def proxy_getCurrentRace_def proxy_getNextRace_def proxy_getDrivers_def
        proxy_getDriver_def proxy_getConstructors_def proxy_getConstructor_def
        proxy_getRaceResults_def proxy_getQualifyingResults_def proxy_getDriverStandings_def
        proxy_getConstructorStandings_def season_text_def Let_def split: option.splits)

lemma proxy_invoke_unresolved:
  assumes "proxy_endpoint r = None"
  shows "proxy_invoke w r log = (Inl conversion_error, log)"
  using assms
  by (cases r)
     (auto simp: proxy_getSeasons_def proxy_getCurrentSeason_def proxy_getRaces_def
        proxy_getRace_def proxy_getCurrentRace_def proxy_getNextRace_def proxy_getDrivers_def
        proxy_getDriver_def proxy_getConstructors_def proxy_getConstructor_def
        proxy_getRaceResults_def proxy_getQualifyingResults_def proxy_getDriverStandings_def
        proxy_getConstructorStandings_def season_text_def Let_def split: option.splits)

text \<open>
  What \<open>formatError\<close> returns is the Normalized Error of the failure, by its kind.
\<close>

lemma formatError_normalized:
  assumes "formatError error = Inr formatted"
  shows "normalized ''Jolpica F1 API service unavailable'' error formatted"
  using assms
  by (auto simp: formatError_def normalized_def failure_kind_def new_Error_def body_error_def
      or_else_def split: option.splits if_splits sum.splits)

lemma proxy_formatError_normalized:
  assumes "proxy_formatError error = Inr formatted"
  shows "normalized ''F1 API service unavailable'' error formatted"
  using assms
  by (auto simp: proxy_formatError_def normalized_def failure_kind_def new_Error_def
      body_error_def or_else_def split: option.splits if_splits sum.splits)

text \<open>
  The value \<open>makeRequest\<close> returns is a response body as it is: the cached one on a
  hit, the one the GET resolved with on a miss.
\<close>

lemma makeRequest_returns_body:
  assumes "fst (makeRequest w key st) = Inr data"
  shows "truthy (cache_get (clock w) (cache st) key) \<and> data = cache_get (clock w) (cache st) key
         \<or> \<not> truthy (cache_get (clock w) (cache st) key)
           \<and> (\<exists>response. upstream w (key, []) = Resolved response \<and> data = resp_data response)"
  using assms
  by (auto simp: makeRequest_def client_get_def Let_def
      split: if_splits sum.splits axios_outcome.splits)

text \<open>
  C5, as stated, fails in both halves for the caching client. \<open>getRaces\<close> returns an
  object with \<open>success\<close>, \<open>data\<close> and \<open>season\<close> that it builds from the response
  body, not the body itself. And an invocation can fail without raising a Normalized Error:
  when the upstream answers with status 200 and the body \<open>null\<close>, no upstream call has
  failed, the body is stored, and \<open>getRaces\<close> raises the \<open>TypeError\<close> of reading
  \<open>MRData\<close> of \<open>null\<close>, which \<open>formatError\<close> never saw.
\<close>

theorem raw_body_counterexample:
  "upstream (world_at 1000 (ok_response (races_body ''2024''))) (''/2024.json'', [])
     = Resolved \<lparr>resp_status = 200, resp_data = races_body ''2024''\<rparr>
   \<and> fst (invoke (world_at 1000 (ok_response (races_body ''2024''))) (GetRaces (Str ''2024''))
          fresh_client)
       = Inr (Obj [(''success'', Bool True), (''data'', race_list), (''season'', Str ''2024'')])
   \<and> Obj [(''success'', Bool True), (''data'', race_list), (''season'', Str ''2024'')]
       \<noteq> races_body ''2024''
   \<and> upstream (world_at 1000 (ok_response Null)) (''/2024.json'', [])
       = Resolved \<lparr>resp_status = 200, resp_data = Null\<rparr>
   \<and> fst (invoke (world_at 1000 (ok_response Null)) (GetRaces (Str ''2024'')) fresh_client)
       = Inl (type_error Null ''MRData'')
   \<and> err_status (type_error Null ''MRData'') = None
   \<and> err_code (type_error Null ''MRData'') = Undefined
   \<and> cache (snd (invoke (world_at 1000 (ok_response Null)) (GetRaces (Str ''2024''))
          fresh_client)) ''/2024.json''
       = Some \<lparr>entry_value = Null, entry_expiry = 1801250\<rparr>"
  by (simp add: getRaces_def makeRequest_def client_get_def respond_def default_param_def
      world_at_def answering_def ok_response_def fresh_client_def no_entries_def cache_get_def
      cache_set_def getCacheTTL_def type_error_def
      races_body_def Let_def nullish_def or_else_def opt_member_def race_list_def)

text \<open>
  C5, amended. Every successful invocation of an operation of the proxy client returns the
  response body the GET resolved with, unmodified. Every successful invocation of an
  operation of the caching client returns the object whose properties \<open>result_fields\<close>
  lists (\<open>success: true\<close>, \<open>data\<close>, and the season, round, total or identifier), built
  from \<open>MRData\<close> of a response body as it is: the cached one on a hit, the one the GET
  resolved with on a miss. In both clients an invocation whose GET is rejected raises what
  \<open>formatError\<close> returns for the rejection, which is the Normalized Error of the failure
  by its kind.
\<close>

theorem operation_results:
  "(fst (proxy_invoke w r log) = Inr v
      \<longrightarrow> (\<exists>path response. proxy_endpoint r = Some path
            \<and> upstream w (path, []) = Resolved response \<and> v = resp_data response))
   \<and> (fst (invoke w r st) = Inr v
      \<longrightarrow> (\<exists>key data. endpoint r = Some key
            \<and> v = Obj (result_fields w r (member data ''MRData''))
            \<and> (truthy (cache_get (clock w) (cache st) key)
                  \<and> data = cache_get (clock w) (cache st) key
                \<or> \<not> truthy (cache_get (clock w) (cache st) key)
                  \<and> (\<exists>response. upstream w (key, []) = Resolved response
                        \<and> data = resp_data response))))
   \<and> (proxy_endpoint r = Some path \<and> upstream w (path, []) = Rejected error
        \<and> proxy_formatError error = Inr formatted
      \<longrightarrow> proxy_invoke w r log = (Inl formatted, log @ [(path, [])])
          \<and> normalized ''F1 API service unavailable'' error formatted)
   \<and> (endpoint r = Some key \<and> \<not> truthy (cache_get (clock w) (cache st) key)
        \<and> upstream w (key, []) = Rejected error \<and> formatError error = Inr formatted
      \<longrightarrow> invoke w r st = (Inl formatted, st\<lparr>issued := issued st @ [(key, [])]\<rparr>)
          \<and> normalized ''Jolpica F1 API service unavailable'' error formatted)"
proof -
  have proxy_success: "\<exists>path response. proxy_endpoint r = Some path
            \<and> upstream w (path, []) = Resolved response \<and> v = resp_data response"
    if ok: "fst (proxy_invoke w r log) = Inr v"
  proof (cases "proxy_endpoint r")
    case None
    then show ?thesis
      using ok by (simp add: proxy_invoke_unresolved)
  next
    case (Some path)
    then have "fst (proxy_fetch w path log) = Inr v"
      using ok by (simp add: proxy_invoke_resolved)
    then have "\<exists>response. upstream w (path, []) = Resolved response \<and> v = resp_data response"
      by (auto simp: proxy_fetch_def proxy_client_get_def
          split: sum.splits axios_outcome.splits if_splits)
    then show ?thesis
      using Some by blast
  qed
  have success: "\<exists>key data. endpoint r = Some key
            \<and> v = Obj (result_fields w r (member data ''MRData''))
            \<and> (truthy (cache_get (clock w) (cache st) key)
                  \<and> data = cache_get (clock w) (cache st) key
                \<or> \<not> truthy (cache_get (clock w) (cache st) key)
                  \<and> (\<exists>response. upstream w (key, []) = Resolved response
                        \<and> data = resp_data response))"
    if ok: "fst (invoke w r st) = Inr v"
  proof (cases "endpoint r")
    case None
    then show ?thesis
      using ok by (simp add: invoke_unresolved)
  next
    case (Some key)
    obtain res st' where made: "makeRequest w key st = (res, st')"
      by (cases "makeRequest w key st")
    show ?thesis
    proof (cases res)
      case (Inl e)
      then show ?thesis
        using ok made by (simp add: invoke_resolved [OF Some] respond_def)
    next
      case (Inr data)
      then have "v = Obj (result_fields w r (member data ''MRData''))"
        using ok made by (simp add: invoke_resolved [OF Some] respond_def split: if_splits)
      moreover have "fst (makeRequest w key st) = Inr data"
        using made Inr by simp
      ultimately show ?thesis
        using Some makeRequest_returns_body [of w key st data] by blast
    qed
  qed
  have proxy_failure: "proxy_invoke w r log = (Inl formatted, log @ [(path, [])])
          \<and> normalized ''F1 API service unavailable'' error formatted"
    if "proxy_endpoint r = Some path" "upstream w (path, []) = Rejected error"
       "proxy_formatError error = Inr formatted"
    using that
    by (simp add: proxy_invoke_resolved proxy_fetch_def proxy_client_get_def
        proxy_formatError_normalized)
  have failure: "invoke w r st = (Inl formatted, st\<lparr>issued := issued st @ [(key, [])]\<rparr>)
          \<and> normalized ''Jolpica F1 API service unavailable'' error formatted"
    if key: "endpoint r = Some key"
      and miss: "\<not> truthy (cache_get (clock w) (cache st) key)"
      and rejected: "upstream w (key, []) = Rejected error"
      and returned: "formatError error = Inr formatted"
  proof -
    have "client_get w (key, []) = Inl formatted"
      using rejected returned by (simp add: client_get_def)
    then have "makeRequest w key st = (Inl formatted, st\<lparr>issued := issued st @ [(key, [])]\<rparr>)"
      using miss by (simp add: makeRequest_failed)
    then show ?thesis
      using returned by (simp add: invoke_resolved [OF key] respond_def formatError_normalized)
  qed
  show ?thesis
    using proxy_success success proxy_failure failure by blast
qed

theorem operation_results_witness:
  "fst (proxy_invoke (world_at 1000 (ok_response (races_body ''2024''))) (GetRaces (Str ''2024'')) [])
     = Inr (races_body ''2024'')
   \<and> (\<exists>path response. proxy_endpoint (GetRaces (Str ''2024'')) = Some path
          \<and> upstream (world_at 1000 (ok_response (races_body ''2024''))) (path, []) = Resolved response
          \<and> races_body ''2024'' = resp_data response)
   \<and> fst (invoke (world_at 1000 (ok_response (races_body ''2024''))) (GetRaces (Str ''2024''))
          fresh_client)
       = Inr (Obj [(''success'', Bool True), (''data'', race_list), (''season'', Str ''2024'')])
   \<and> (\<exists>key data. endpoint (GetRaces (Str ''2024'')) = Some key
          \<and> Obj [(''success'', Bool True), (''data'', race_list), (''season'', Str ''2024'')]
              = Obj (result_fields (world_at 1000 (ok_response (races_body ''2024'')))
                       (GetRaces (Str ''2024'')) (member data ''MRData''))
          \<and> (truthy (cache_get 1000 no_entries key) \<and> data = cache_get 1000 no_entries key
              \<or> \<not> truthy (cache_get 1000 no_entries key)
                \<and> (\<exists>response. upstream (world_at 1000 (ok_response (races_body ''2024'')))
                                   (key, []) = Resolved response
                      \<and> data = resp_data response)))
   \<and> proxy_invoke (world_at 1000 (Rejected timeout_error)) (GetRaces (Str ''2024'')) []
       = (Inl \<lparr>err_message = ''F1 API service unavailable'', err_status = None,
                err_code = Str ''NETWORK_ERROR''\<rparr>, [(''/api/races/2024'', [])])
   \<and> normalized ''F1 API service unavailable'' timeout_error
         \<lparr>err_message = ''F1 API service unavailable'', err_status = None,
          err_code = Str ''NETWORK_ERROR''\<rparr>
   \<and> invoke (world_at 1000 (Rejected timeout_error)) (GetRaces (Str ''2024'')) fresh_client
       = (Inl \<lparr>err_message = ''Jolpica F1 API service unavailable'', err_status = None,
                err_code = Str ''NETWORK_ERROR''\<rparr>,
          fresh_client\<lparr>issued := [(''/2024.json'', [])]\<rparr>)
   \<and> normalized ''Jolpica F1 API service unavailable'' timeout_error
         \<lparr>err_message = ''Jolpica F1 API service unavailable'', err_status = None,
          err_code = Str ''NETWORK_ERROR''\<rparr>"
proof -
  let ?ok = "world_at 1000 (ok_response (races_body ''2024''))"
  let ?down = "world_at 1000 (Rejected timeout_error)"
  let ?r = "GetRaces (Str ''2024'')"
  let ?v = "Obj [(''success'', Bool True), (''data'', race_list), (''season'', Str ''2024'')]"
  let ?p = "\<lparr>err_message = ''F1 API service unavailable'', err_status = None,
             err_code = Str ''NETWORK_ERROR''\<rparr>"
  let ?f = "\<lparr>err_message = ''Jolpica F1 API service unavailable'', err_status = None,
             err_code = Str ''NETWORK_ERROR''\<rparr>"
  have proxy_returned: "fst (proxy_invoke ?ok ?r []) = Inr (races_body ''2024'')"
    by (simp add: proxy_getRaces_def proxy_fetch_def proxy_client_get_def default_param_def
        world_at_def answering_def ok_response_def races_body_def)
  have returned: "fst (invoke ?ok ?r fresh_client) = Inr ?v"
    by (simp add: getRaces_def makeRequest_def client_get_def respond_def default_param_def
        world_at_def answering_def ok_response_def fresh_client_def no_entries_def cache_get_def
        races_body_def Let_def nullish_def or_else_def opt_member_def race_list_def)
  have proxy_rejected: "proxy_endpoint ?r = Some ''/api/races/2024''
      \<and> upstream ?down (''/api/races/2024'', []) = Rejected timeout_error
      \<and> proxy_formatError timeout_error = Inr ?p"
    by (simp add: season_text_def default_param_def world_at_def answering_def
        proxy_formatError_def timeout_error_def)
  have rejected: "endpoint ?r = Some ''/2024.json''
      \<and> \<not> truthy (cache_get (clock ?down) (cache fresh_client) ''/2024.json'')
      \<and> upstream ?down (''/2024.json'', []) = Rejected timeout_error
      \<and> formatError timeout_error = Inr ?f"
    by (simp add: season_text_def default_param_def world_at_def answering_def
        formatError_def timeout_error_def cache_get_def fresh_client_def no_entries_def)
  have clock: "clock ?ok = 1000" and store: "cache fresh_client = no_entries"
    by (simp_all add: world_at_def fresh_client_def)
  from proxy_returned
    operation_results [where w = ?ok and r = ?r and log = "[]" and v = "races_body ''2024''"]
  have c1: "\<exists>path response. proxy_endpoint ?r = Some path
          \<and> upstream ?ok (path, []) = Resolved response \<and> races_body ''2024'' = resp_data response"
    by blast
  from returned
    operation_results [where w = ?ok and r = ?r and st = fresh_client and v = ?v]
  have c2: "\<exists>key data. endpoint ?r = Some key
          \<and> ?v = Obj (result_fields ?ok ?r (member data ''MRData''))
          \<and> (truthy (cache_get 1000 no_entries key) \<and> data = cache_get 1000 no_entries key
              \<or> \<not> truthy (cache_get 1000 no_entries key)
                \<and> (\<exists>response. upstream ?ok (key, []) = Resolved response
                      \<and> data = resp_data response))"
    unfolding clock store by blast
  from proxy_rejected
    operation_results [where w = ?down and r = ?r and log = "[]" and path = "''/api/races/2024''"
      and error = timeout_error and formatted = ?p]
  have c3: "proxy_invoke ?down ?r [] = (Inl ?p, [(''/api/races/2024'', [])])
      \<and> normalized ''F1 API service unavailable'' timeout_error ?p"
    by simp
  from rejected
    operation_results [where w = ?down and r = ?r and st = fresh_client and key = "''/2024.json''"
      and error = timeout_error and formatted = ?f]
  have c4: "invoke ?down ?r fresh_client = (Inl ?f, fresh_client\<lparr>issued := issued fresh_client @ [(''/2024.json'', [])]\<rparr>)
      \<and> normalized ''Jolpica F1 API service unavailable'' timeout_error ?f"
    by simp
  show ?thesis
    using proxy_returned returned c1 c2 c3 c4 by (simp add: fresh_client_def)
qed

subsection \<open>Errors an invocation raises\<close>

lemma makeRequest_raises:
  assumes "fst (makeRequest w key st) = Inl e"
  shows "(\<exists>error. upstream w (key, []) = Rejected error \<and> formatError error = Inr e)
         \<or> e = conversion_error
         \<or> e = type_error Undefined ''length''"
proof -
  have raised: "raised = conversion_error" if "formatError error = Inl raised" for error raised
    using that
    by (auto simp: formatError_def new_Error_def split: option.splits if_splits sum.splits)
  show ?thesis
    using assms raised
    by (auto simp: makeRequest_def client_get_def Let_def
        split: if_splits sum.splits axios_outcome.splits)
qed

lemma client_get_defined:
  assumes "client_get w req = Inr response"
  shows "resp_data response \<noteq> Undefined"
  using assms
  by (cases "upstream w req") (simp_all add: client_get_def split: if_splits sum.splits)

lemma makeRequest_defined:
  assumes "fst (makeRequest w key st) = Inr data"
  shows "data \<noteq> Undefined"
proof (cases "truthy (cache_get (clock w) (cache st) key)")
  case True
  then have "data = cache_get (clock w) (cache st) key"
    using assms by (simp add: makeRequest_hit)
  then show ?thesis
    using True by auto
next
  case False
  show ?thesis
  proof (cases "client_get w (key, [])")
    case (Inl error)
    then show ?thesis
      using assms False by (simp add: makeRequest_failed)
  next
    case (Inr response)
    then have "data = resp_data response"
      using assms False by (simp add: makeRequest_fetched)
    then show ?thesis
      using client_get_defined [OF Inr] by simp
  qed
qed

text \<open>
  An unsuccessful invocation of an operation of the caching client raises what
  \<open>formatError\<close> returns for the rejected GET, or one of the \<open>TypeError\<close>s of the
  runtime: the one of a string conversion that fails (of a parameter, or of the message
  inside \<open>formatError\<close>), the one of measuring an \<open>undefined\<close> body, or the one of
  reading \<open>MRData\<close> of a \<open>null\<close> body.
\<close>

lemma invoke_raises:
  assumes "fst (invoke w r st) = Inl e"
  shows "(\<exists>key error. endpoint r = Some key \<and> upstream w (key, []) = Rejected error
            \<and> formatError error = Inr e)
         \<or> e = conversion_error
         \<or> e = type_error Undefined ''length''
         \<or> e = type_error Null ''MRData''"
proof (cases "endpoint r")
  case None
  then show ?thesis
    using assms by (simp add: invoke_unresolved)
next
  case (Some key)
  obtain res st' where made: "makeRequest w key st = (res, st')"
    by (cases "makeRequest w key st")
  show ?thesis
  proof (cases res)
    case (Inl e')
    then have "fst (makeRequest w key st) = Inl e"
      using assms made by (simp add: invoke_resolved [OF Some] respond_def)
    then show ?thesis
      using makeRequest_raises [of w key st e] Some by blast
  next
    case (Inr data)
    then have "fst (makeRequest w key st) = Inr data"
      using made by simp
    then have "data \<noteq> Undefined"
      by (rule makeRequest_defined)
    moreover have "nullish data \<and> e = type_error data ''MRData''"
      using assms made Inr by (simp add: invoke_resolved [OF Some] respond_def split: if_splits)
    ultimately show ?thesis
      by (auto simp: nullish_def)
  qed
qed

end
